theory Spec2Isabelle
  imports Main "HOL-Library.AList"
begin

section \<open>Python values and builtins used by script.py\<close>

text \<open>
  The configuration document is what \<^verbatim>\<open>yaml.safe_load\<close> returns: a tree of Python
  values. The model covers null, booleans, integers, strings, sequences and mappings with
  string keys, and of the floats the non-finite ones (\<^verbatim>\<open>.nan\<close>, \<^verbatim>\<open>.inf\<close>, \<^verbatim>\<open>-.inf\<close>),
  whose \<^verbatim>\<open>str()\<close> and \<^verbatim>\<open>int()\<close> are fixed by the language. Finite floats, timestamps,
  binary scalars, sets and mappings with other keys are not covered. Python's \<^verbatim>\<open>None\<close> is
  \<open>YNull\<close>. Values are trees: a document that shares one node through a YAML alias is
  not covered. A \<open>char\<close> is read as a code point below 256, integers are unbounded and
  converted to and from text without a digit limit.

  A mapping keeps its insertion order, so it is an association list; a lookup reads the
  first entry of a key and \<open>AList.update\<close> is Python's item assignment (in place for a key
  that is present, appended otherwise).
\<close>

datatype pyfloat = FNan | FInf bool

datatype yaml = YNull | YBool bool | YInt int | YFloat pyfloat | YStr string
  | YList "yaml list" | YDict "(string \<times> yaml) list"

datatype py_exc = ValueError | TypeError | OverflowError | AttributeError

text \<open>An exception that no handler of the script catches ends the process.\<close>

datatype error = Uncaught py_exc | Exit int

fun py_truthy :: "yaml \<Rightarrow> bool" where
  "py_truthy YNull = False"
| "py_truthy (YBool b) = b"
| "py_truthy (YInt n) = (n \<noteq> 0)"
| "py_truthy (YFloat f) = True"
| "py_truthy (YStr s) = (s \<noteq> [])"
| "py_truthy (YList xs) = (xs \<noteq> [])"
| "py_truthy (YDict kvs) = (kvs \<noteq> [])"

fun is_dict :: "yaml \<Rightarrow> bool" where
  "is_dict (YDict kvs) = True"
| "is_dict _ = False"

fun is_list :: "yaml \<Rightarrow> bool" where
  "is_list (YList xs) = True"
| "is_list _ = False"

definition has_key :: "(string \<times> yaml) list \<Rightarrow> string \<Rightarrow> bool" where
  "has_key d k = (map_of d k \<noteq> None)"

definition dict_get_default :: "(string \<times> yaml) list \<Rightarrow> string \<Rightarrow> yaml \<Rightarrow> yaml" where
  "dict_get_default d k dflt = (case map_of d k of None \<Rightarrow> dflt | Some v \<Rightarrow> v)"

definition dict_get :: "(string \<times> yaml) list \<Rightarrow> string \<Rightarrow> yaml" where
  "dict_get d k = dict_get_default d k YNull"

subsection \<open>Strings\<close>

definition is_space :: "char \<Rightarrow> bool" where
  "is_space c = ((of_char c :: nat) \<in> set [9, 10, 11, 12, 13, 28, 29, 30, 31, 32, 133, 160])"

definition py_strip :: "string \<Rightarrow> string" where
  "py_strip s = rev (dropWhile is_space (rev (dropWhile is_space s)))"

text \<open>
  \<^verbatim>\<open>str.upper\<close> on code points below 256. The three letters whose capital lies outside
  that range (181, 223, 255) are left as they are: the script only compares the result
  with \<^verbatim>\<open>"A"\<close> and \<^verbatim>\<open>"AAAA"\<close>, which none of them can produce.
\<close>

definition upper_char :: "char \<Rightarrow> char" where
  "upper_char c = (let n = (of_char c :: nat) in
     if (97 \<le> n \<and> n \<le> 122) \<or> (224 \<le> n \<and> n \<le> 254 \<and> n \<noteq> 247)
     then char_of (n - 32) else c)"

definition py_upper :: "string \<Rightarrow> string" where
  "py_upper s = map upper_char s"

definition py_startswith :: "string \<Rightarrow> string \<Rightarrow> bool" where
  "py_startswith s p = (take (length p) s = p)"

fun py_contains :: "string \<Rightarrow> string \<Rightarrow> bool" where
  "py_contains [] p = (p = [])"
| "py_contains (c # cs) p = (py_startswith (c # cs) p \<or> py_contains cs p)"

fun py_join :: "string \<Rightarrow> string list \<Rightarrow> string" where
  "py_join sep [] = []"
| "py_join sep [x] = x"
| "py_join sep (x # y # ys) = x @ sep @ py_join sep (y # ys)"

subsection \<open>Integers and text\<close>

definition is_digit :: "char \<Rightarrow> bool" where
  "is_digit c = (48 \<le> (of_char c :: nat) \<and> (of_char c :: nat) \<le> 57)"

definition digit_val :: "char \<Rightarrow> nat" where
  "digit_val c = of_char c - 48"

definition digit_char :: "nat \<Rightarrow> char" where
  "digit_char n = char_of (48 + n)"

fun dec_of_nat :: "nat \<Rightarrow> string" where
  "dec_of_nat n = (if n < 10 then [digit_char n]
                   else dec_of_nat (n div 10) @ [digit_char (n mod 10)])"

declare dec_of_nat.simps [simp del]

definition str_of_int :: "int \<Rightarrow> string" where
  "str_of_int i = (if i < 0 then CHR ''-'' # dec_of_nat (nat (- i)) else dec_of_nat (nat i))"

text \<open>
  The digits of an integer literal as \<^verbatim>\<open>int(str)\<close> reads them: decimal digits, with single
  underscores allowed between two digits. \<open>prev\<close> says that the character before was a
  digit; \<open>None\<close> is \<^verbatim>\<open>ValueError\<close>.
\<close>

fun int_digits :: "nat \<Rightarrow> bool \<Rightarrow> string \<Rightarrow> nat option" where
  "int_digits acc prev [] = (if prev then Some acc else None)"
| "int_digits acc prev (c # cs) =
     (if is_digit c then int_digits (acc * 10 + digit_val c) True cs
      else if c = CHR ''_'' \<and> prev then int_digits acc False cs
      else None)"

definition int_of_str :: "string \<Rightarrow> int option" where
  "int_of_str s =
     (case py_strip s of
        [] \<Rightarrow> None
      | c # cs \<Rightarrow>
          if c = CHR ''-'' then map_option (\<lambda>n. - int n) (int_digits 0 False cs)
          else if c = CHR ''+'' then map_option int (int_digits 0 False cs)
          else map_option int (int_digits 0 False (c # cs)))"

text \<open>The builtin \<^verbatim>\<open>int(v)\<close>.\<close>

fun py_int :: "yaml \<Rightarrow> py_exc + int" where
  "py_int (YInt n) = Inr n"
| "py_int (YBool b) = Inr (if b then 1 else 0)"
| "py_int (YStr s) = (case int_of_str s of None \<Rightarrow> Inl ValueError | Some n \<Rightarrow> Inr n)"
| "py_int (YFloat FNan) = Inl ValueError"
| "py_int (YFloat (FInf neg)) = Inl OverflowError"
| "py_int YNull = Inl TypeError"
| "py_int (YList xs) = Inl TypeError"
| "py_int (YDict kvs) = Inl TypeError"

subsection \<open>\<^verbatim>\<open>str()\<close> and \<^verbatim>\<open>repr()\<close>\<close>

definition hex_digit :: "nat \<Rightarrow> char" where
  "hex_digit n = (if n < 10 then char_of (48 + n) else char_of (87 + n))"

definition printable :: "char \<Rightarrow> bool" where
  "printable c = (let n = (of_char c :: nat) in
     \<not> (n < 32 \<or> n = 127 \<or> (128 \<le> n \<and> n \<le> 160) \<or> n = 173))"

definition repr_char :: "char \<Rightarrow> char \<Rightarrow> string" where
  "repr_char quote c =
     (if c = quote \<or> c = CHR 0x5C then [CHR 0x5C, c]
      else if c = CHR 0x09 then [CHR 0x5C, CHR ''t'']
      else if c = CHR 0x0A then [CHR 0x5C, CHR ''n'']
      else if c = CHR 0x0D then [CHR 0x5C, CHR ''r'']
      else if printable c then [c]
      else [CHR 0x5C, CHR ''x'', hex_digit ((of_char c :: nat) div 16),
            hex_digit ((of_char c :: nat) mod 16)])"

definition repr_str :: "string \<Rightarrow> string" where
  "repr_str s =
     (let quote = (if CHR 0x27 \<in> set s \<and> CHR 0x22 \<notin> set s then CHR 0x22 else CHR 0x27)
      in [quote] @ concat (map (repr_char quote) s) @ [quote])"

fun repr_float :: "pyfloat \<Rightarrow> string" where
  "repr_float FNan = ''nan''"
| "repr_float (FInf neg) = (if neg then ''-inf'' else ''inf'')"

fun py_repr :: "yaml \<Rightarrow> string" where
  "py_repr YNull = ''None''"
| "py_repr (YBool b) = (if b then ''True'' else ''False'')"
| "py_repr (YInt n) = str_of_int n"
| "py_repr (YFloat f) = repr_float f"
| "py_repr (YStr s) = repr_str s"
| "py_repr (YList xs) = ''['' @ py_join '', '' (map py_repr xs) @ '']''"
| "py_repr (YDict kvs) =
     ''{'' @ py_join '', '' (map (\<lambda>kv. repr_str (fst kv) @ '': '' @ py_repr (snd kv)) kvs) @ ''}''"

definition py_str :: "yaml \<Rightarrow> string" where
  "py_str v = (case v of YStr s \<Rightarrow> s | _ \<Rightarrow> py_repr v)"

section \<open>Configuration: \<^verbatim>\<open>load_and_validate_config\<close>\<close>

definition DEFAULT_CHECK_INTERVAL_SECONDS :: int where
  "DEFAULT_CHECK_INTERVAL_SECONDS = 300"

definition DEFAULT_PUBLIC_IP_SERVICE_URL :: string where
  "DEFAULT_PUBLIC_IP_SERVICE_URL = ''https://api.ipify.org?format=json''"

text \<open>The module's globals.\<close>

record globals =
  MIJNHOST_API_KEY :: "string option"
  CHECK_INTERVAL_SECONDS :: int
  PUBLIC_IP_SERVICE_URL :: string
  parsed_config_data :: yaml

definition initial_globals :: globals where
  "initial_globals =
     \<lparr>MIJNHOST_API_KEY = None,
      CHECK_INTERVAL_SECONDS = DEFAULT_CHECK_INTERVAL_SECONDS,
      PUBLIC_IP_SERVICE_URL = DEFAULT_PUBLIC_IP_SERVICE_URL,
      parsed_config_data = YDict []\<rparr>"

text \<open>
  The entries of \<^verbatim>\<open>valid_domain_configs\<close>: the dictionaries that validation builds itself,
  with keys \<^verbatim>\<open>name\<close>, \<^verbatim>\<open>type\<close>, \<^verbatim>\<open>ttl\<close> and \<^verbatim>\<open>domain_name\<close>, \<^verbatim>\<open>records\<close>.
\<close>

record record_config =
  record_name :: string
  record_type :: string
  record_ttl :: int

record domain_config =
  domain_name :: string
  records :: "record_config list"

definition empty_structure :: yaml where
  "empty_structure = YDict [(''global_settings'', YDict []), (''domains'', YList [])]"

subsection \<open>Records and domains (lines 122 to 166)\<close>

text \<open>The body of the inner loop for one \<^verbatim>\<open>record_item\<close>; \<open>None\<close> is \<^verbatim>\<open>continue\<close>.\<close>

definition validate_record :: "yaml \<Rightarrow> record_config option" where
  "validate_record record_item =
     (case record_item of
        YDict d \<Rightarrow>
          if \<not> (has_key d ''name'' \<and> has_key d ''type'' \<and> has_key d ''ttl'') then None
          else
            let name = py_strip (py_str (dict_get_default d ''name'' (YStr [])));
                type = py_strip (py_upper (py_str (dict_get_default d ''type'' (YStr []))));
                ttl_str = py_strip (py_str (dict_get_default d ''ttl'' (YStr [])))
            in if name = [] then None
               else if type \<notin> set [''A'', ''AAAA''] then None
               else (case int_of_str ttl_str of
                       None \<Rightarrow> None
                     | Some ttl \<Rightarrow>
                         if ttl \<le> 0 then None
                         else Some \<lparr>record_name = name, record_type = type, record_ttl = ttl\<rparr>)
      | _ \<Rightarrow> None)"

text \<open>The inner loop, with \<^verbatim>\<open>valid_records_for_domain\<close> as accumulator.\<close>

fun records_loop :: "record_config list \<Rightarrow> yaml list \<Rightarrow> record_config list" where
  "records_loop valid_records_for_domain [] = valid_records_for_domain"
| "records_loop valid_records_for_domain (record_item # rest) =
     (case validate_record record_item of
        None \<Rightarrow> records_loop valid_records_for_domain rest
      | Some r \<Rightarrow> records_loop (valid_records_for_domain @ [r]) rest)"

text \<open>The body of the outer loop for one \<^verbatim>\<open>domain_entry\<close>.\<close>

definition validate_domain :: "yaml \<Rightarrow> domain_config option" where
  "validate_domain domain_entry =
     (case domain_entry of
        YDict d \<Rightarrow>
          if \<not> (has_key d ''domain_name'' \<and> has_key d ''records'') then None
          else (case dict_get d ''records'' of
                  YList rs \<Rightarrow>
                    if rs = [] then None
                    else
                      let current_domain_name =
                            py_strip (py_str (dict_get_default d ''domain_name'' (YStr [])))
                      in if current_domain_name = [] then None
                         else
                           let valid_records_for_domain = records_loop [] rs
                           in if valid_records_for_domain \<noteq> []
                              then Some \<lparr>domain_name = current_domain_name,
                                         records = valid_records_for_domain\<rparr>
                              else None
                | _ \<Rightarrow> None)
      | _ \<Rightarrow> None)"

fun domains_loop :: "domain_config list \<Rightarrow> yaml list \<Rightarrow> domain_config list" where
  "domains_loop valid_domain_configs [] = valid_domain_configs"
| "domains_loop valid_domain_configs (domain_entry # rest) =
     (case validate_domain domain_entry of
        None \<Rightarrow> domains_loop valid_domain_configs rest
      | Some dc \<Rightarrow> domains_loop (valid_domain_configs @ [dc]) rest)"

subsection \<open>Global settings (lines 90 to 120)\<close>

definition ensure_global_settings :: "(string \<times> yaml) list \<Rightarrow> (string \<times> yaml) list" where
  "ensure_global_settings d =
     (if \<not> has_key d ''global_settings'' \<or> \<not> is_dict (dict_get d ''global_settings'')
      then AList.update ''global_settings'' (YDict []) d else d)"

definition ensure_domains :: "(string \<times> yaml) list \<Rightarrow> (string \<times> yaml) list" where
  "ensure_domains d =
     (if \<not> has_key d ''domains'' \<or> \<not> is_list (dict_get d ''domains'')
      then AList.update ''domains'' (YList []) d else d)"

text \<open>Lines 101 to 108: only \<^verbatim>\<open>ValueError\<close> and \<^verbatim>\<open>TypeError\<close> are caught.\<close>

definition effective_check_interval :: "yaml \<Rightarrow> error + int" where
  "effective_check_interval check_interval_yaml =
     (case py_int (if check_interval_yaml \<noteq> YNull then check_interval_yaml
                   else YInt DEFAULT_CHECK_INTERVAL_SECONDS) of
        Inr n \<Rightarrow> Inr (if n \<le> 0 then DEFAULT_CHECK_INTERVAL_SECONDS else n)
      | Inl ValueError \<Rightarrow> Inr DEFAULT_CHECK_INTERVAL_SECONDS
      | Inl TypeError \<Rightarrow> Inr DEFAULT_CHECK_INTERVAL_SECONDS
      | Inl e \<Rightarrow> Inl (Uncaught e))"

definition effective_service_url :: "yaml \<Rightarrow> string" where
  "effective_service_url public_ip_url_yaml =
     (let url = py_str (if public_ip_url_yaml \<noteq> YNull then public_ip_url_yaml
                        else YStr DEFAULT_PUBLIC_IP_SERVICE_URL)
      in if \<not> (py_startswith url ''http://'' \<or> py_startswith url ''https://'')
         then DEFAULT_PUBLIC_IP_SERVICE_URL else url)"

text \<open>
  What line 91 raises when \<^verbatim>\<open>parsed_config_data\<close> is not a mapping. Line 40 has replaced
  every falsy value, so the value is truthy here.
\<close>

fun not_a_mapping :: "yaml \<Rightarrow> py_exc" where
  "not_a_mapping (YStr s) = (if py_contains s ''global_settings'' then AttributeError else TypeError)"
| "not_a_mapping (YList xs) = (if YStr ''global_settings'' \<in> set xs then AttributeError else TypeError)"
| "not_a_mapping _ = TypeError"

text \<open>
  Lines 90 to 171 on the loaded document: the returned \<^verbatim>\<open>_last_known_ip_yaml\<close> and
  \<^verbatim>\<open>valid_domain_configs\<close>, the two settings and the document as it stays in memory.
\<close>

record validated =
  v_last_known_ip :: yaml
  v_domains :: "domain_config list"
  v_check_interval :: int
  v_service_url :: string
  v_document :: yaml

definition validation_pipeline :: "yaml \<Rightarrow> error + validated" where
  "validation_pipeline doc =
     (case doc of
        YDict d0 \<Rightarrow>
          let d1 = ensure_global_settings d0;
              gs = (case dict_get d1 ''global_settings'' of YDict kvs \<Rightarrow> kvs | _ \<Rightarrow> [])
          in (case effective_check_interval (dict_get gs ''check_interval_seconds'') of
                Inl e \<Rightarrow> Inl e
              | Inr interval \<Rightarrow>
                  let d2 = ensure_domains d1;
                      domain_configs_yaml = (case dict_get d2 ''domains'' of YList xs \<Rightarrow> xs | _ \<Rightarrow> [])
                  in Inr \<lparr>v_last_known_ip = dict_get gs ''last_known_ip'',
                          v_domains = domains_loop [] domain_configs_yaml,
                          v_check_interval = interval,
                          v_service_url = effective_service_url (dict_get gs ''public_ip_service_url''),
                          v_document = YDict d2\<rparr>)
      | _ \<Rightarrow> Inl (Uncaught (not_a_mapping doc)))"

subsection \<open>Reading the file (lines 28 to 87)\<close>

text \<open>
  What the function sees of the outside: the environment variable, the outcome of opening
  and parsing the configuration file, and the outcome of seeding it from the template
  (read only when the file was not found).
\<close>

datatype read_result = Parsed yaml | FileNotFound | YamlError | OtherError

datatype seed_result =
  SeedParsed yaml | SeedTemplateNotFound | SeedIOError | SeedYamlError | SeedOtherError

record load_env =
  env_api_key :: "string option"
  config_read :: read_result
  seed_read :: seed_result

definition or_empty_structure :: "yaml \<Rightarrow> yaml" where
  "or_empty_structure v = (if \<not> py_truthy v then empty_structure else v)"

text \<open>The result is the returned pair, \<open>(YNull, None)\<close> for \<^verbatim>\<open>return None, None\<close>.\<close>

definition load_and_validate_config ::
  "load_env \<Rightarrow> globals \<Rightarrow> error + ((yaml \<times> domain_config list option) \<times> globals)" where
  "load_and_validate_config env g =
     (let g1 = g\<lparr>MIJNHOST_API_KEY := env_api_key env\<rparr>
      in if env_api_key env = None \<or> env_api_key env = Some [] then Inr ((YNull, None), g1)
         else
           (case (case config_read env of
                    Parsed v \<Rightarrow> Some (or_empty_structure v)
                  | FileNotFound \<Rightarrow>
                      (case seed_read env of
                         SeedParsed v \<Rightarrow> Some (or_empty_structure v)
                       | _ \<Rightarrow> Some empty_structure)
                  | YamlError \<Rightarrow> None
                  | OtherError \<Rightarrow> None) of
              None \<Rightarrow> Inr ((YNull, None), g1)
            | Some doc \<Rightarrow>
                (case validation_pipeline doc of
                   Inl e \<Rightarrow> Inl e
                 | Inr v \<Rightarrow>
                     Inr ((v_last_known_ip v, Some (v_domains v)),
                          g1\<lparr>CHECK_INTERVAL_SECONDS := v_check_interval v,
                             PUBLIC_IP_SERVICE_URL := v_service_url v,
                             parsed_config_data := v_document v\<rparr>))))"

section \<open>Saving: \<^verbatim>\<open>cache_ip_in_yaml\<close>\<close>

text \<open>
  The function changes \<^verbatim>\<open>parsed_config_data\<close> in place and dumps it to the configuration
  file. The result is the globals after the call and the document handed to
  \<^verbatim>\<open>yaml.dump\<close>. A failing write is caught and logged and changes nothing else, so its
  outcome is not an input. Indexing a truthy value that is not a mapping (line 183) is a
  \<^verbatim>\<open>TypeError\<close> outside the \<^verbatim>\<open>try\<close>.
\<close>

definition cache_ip_in_yaml :: "yaml \<Rightarrow> globals \<Rightarrow> error + (globals \<times> yaml)" where
  "cache_ip_in_yaml ip_address g =
     (case or_empty_structure (parsed_config_data g) of
        YDict d0 \<Rightarrow>
          let d1 = ensure_global_settings d0;
              gs = (case dict_get d1 ''global_settings'' of YDict kvs \<Rightarrow> kvs | _ \<Rightarrow> []);
              gs1 = AList.update ''last_known_ip'' ip_address gs;
              gs2 = AList.update ''check_interval_seconds'' (YInt (CHECK_INTERVAL_SECONDS g)) gs1;
              gs3 = AList.update ''public_ip_service_url'' (YStr (PUBLIC_IP_SERVICE_URL g)) gs2;
              d2 = AList.update ''global_settings'' (YDict gs3) d1;
              d3 = ensure_domains d2
          in Inr (g\<lparr>parsed_config_data := YDict d3\<rparr>, YDict d3)
      | _ \<Rightarrow> Inl (Uncaught TypeError))"

section \<open>The two HTTP calls\<close>

text \<open>
  \<^verbatim>\<open>get_public_ip\<close>: the response of the echo service. Every exception is caught and gives
  \<^verbatim>\<open>None\<close>. The \<^verbatim>\<open>ip\<close> field of a JSON body is taken to be a string when it is present.
\<close>

datatype ip_response =
  IpJson "string option" | IpRequestError | IpJsonDecodeError | IpOtherError

fun get_public_ip :: "ip_response \<Rightarrow> string option" where
  "get_public_ip (IpJson (Some ip_address)) = (if ip_address = [] then None else Some ip_address)"
| "get_public_ip _ = None"

text \<open>\<^verbatim>\<open>update_dns_record\<close>: the PATCH request that is sent, and the returned flag.\<close>

datatype http_outcome = Http2xx | HttpError | RequestError | OtherHttpError

record dns_request =
  api_url :: string
  api_key_header :: "string option"
  payload_type :: string
  payload_name :: string
  payload_value :: string
  payload_ttl :: int

definition fqdn_record_name :: "string \<Rightarrow> string \<Rightarrow> string" where
  "fqdn_record_name domain_name_param name =
     (if name = ''@'' \<or> name = [] then domain_name_param @ ''.''
      else name @ ''.'' @ domain_name_param @ ''.'')"

definition display_name :: "string \<Rightarrow> string" where
  "display_name name = (if name = ''@'' \<or> name = [] then ''@'' else name)"

definition update_dns_record ::
  "string option \<Rightarrow> string \<Rightarrow> string \<Rightarrow> string \<Rightarrow> string \<Rightarrow> int \<Rightarrow> http_outcome
     \<Rightarrow> dns_request \<times> bool" where
  "update_dns_record key ip_address domain_name_param name type ttl outcome =
     (\<lparr>api_url = ''https://mijn.host/api/v2/domains/'' @ domain_name_param @ ''/dns'',
       api_key_header = key,
       payload_type = type,
       payload_name = fqdn_record_name domain_name_param name,
       payload_value = ip_address,
       payload_ttl = ttl\<rparr>,
      outcome = Http2xx)"

section \<open>The main loop\<close>

text \<open>
  One iteration of \<^verbatim>\<open>while True\<close> is a function of the state at its start and of what the
  outside answers during it; it returns the state at its end and the trace of what the
  script did. Modification times are numbers that are only compared.
\<close>

datatype log_line =
  ConfigNotAccessible | ChangeDetected | ApiKeyNoLongerSet | ReloadFailed | ConfigReloaded
  | NoDomainsAfterReload | IpDiffers | NoDomainsCachingIp | ProcessingDomain string
  | AllUpdatesSuccessful | UpdatesFailed | IpMatches | IpUnknown | Waiting int

datatype event =
  Log log_line | Sleep int | HttpGet string | HttpPatch dns_request http_outcome
  | WriteConfig yaml

record loop_state =
  globals :: globals
  cached_ip_from_config :: yaml
  domain_configurations :: "domain_config list option"
  dns_config_last_modified_time :: int

record world =
  getmtime :: "int option"
  load_env :: load_env
  ip_response :: ip_response
  patch_outcome :: "nat \<Rightarrow> http_outcome"

text \<open>
  Lines 357 to 364. The loops carry the flag \<^verbatim>\<open>all_updates_successful_for_new_ip\<close>, the
  number of PATCH requests sent so far in this iteration (the outside answers the
  \<open>n\<close>-th of them with \<open>net n\<close>) and the trace.
\<close>

fun update_records ::
  "string option \<Rightarrow> string \<Rightarrow> string \<Rightarrow> (nat \<Rightarrow> http_outcome) \<Rightarrow> record_config list
     \<Rightarrow> bool \<times> nat \<times> event list \<Rightarrow> bool \<times> nat \<times> event list" where
  "update_records key ip dname net [] st = st"
| "update_records key ip dname net (r # rs) (ok, n, evs) =
     (let (req, res) =
            update_dns_record key ip dname (record_name r) (record_type r) (record_ttl r) (net n)
      in update_records key ip dname net rs
           (if \<not> res then False else ok, Suc n, evs @ [HttpPatch req (net n)]))"

fun update_domains ::
  "string option \<Rightarrow> string \<Rightarrow> (nat \<Rightarrow> http_outcome) \<Rightarrow> domain_config list
     \<Rightarrow> bool \<times> nat \<times> event list \<Rightarrow> bool \<times> nat \<times> event list" where
  "update_domains key ip net [] st = st"
| "update_domains key ip net (domain_config # rest) (ok, n, evs) =
     update_domains key ip net rest
       (update_records key ip (domain_name domain_config) net (records domain_config)
          (ok, n, evs @ [Log (ProcessingDomain (domain_name domain_config))]))"

text \<open>Lines 315 to 343. The flag of the result says that the iteration ended in \<^verbatim>\<open>continue\<close>.\<close>

definition reload_phase :: "world \<Rightarrow> loop_state \<Rightarrow> error + (loop_state \<times> event list \<times> bool)" where
  "reload_phase w s =
     (case getmtime w of
        None \<Rightarrow>
          Inr (s\<lparr>dns_config_last_modified_time := 0\<rparr>,
               (if dns_config_last_modified_time s \<noteq> 0 then [Log ConfigNotAccessible] else []),
               False)
      | Some current_mtime \<Rightarrow>
          if current_mtime \<noteq> dns_config_last_modified_time s then
            (case load_and_validate_config (load_env w) (globals s) of
               Inl e \<Rightarrow> Inl e
             | Inr ((ip, doms), g) \<Rightarrow>
                 let s1 = s\<lparr>globals := g, cached_ip_from_config := ip,
                            domain_configurations := doms,
                            dns_config_last_modified_time := current_mtime\<rparr>
                 in if MIJNHOST_API_KEY g = None then
                      Inr (s1, [Log ChangeDetected, Log ApiKeyNoLongerSet,
                                Sleep DEFAULT_CHECK_INTERVAL_SECONDS], True)
                    else if doms = None then
                      Inr (s1, [Log ChangeDetected, Log ReloadFailed,
                                Sleep (if CHECK_INTERVAL_SECONDS g > 0 then CHECK_INTERVAL_SECONDS g
                                       else DEFAULT_CHECK_INTERVAL_SECONDS)], True)
                    else
                      Inr (s1, [Log ChangeDetected, Log ConfigReloaded]
                               @ (if doms = Some [] then [Log NoDomainsAfterReload] else []),
                           False))
          else Inr (s, [], False))"

text \<open>Lines 346 to 379.\<close>

definition reconcile_phase :: "world \<Rightarrow> loop_state \<Rightarrow> error + (loop_state \<times> event list)" where
  "reconcile_phase w s =
     (let g = globals s;
          fetch = [HttpGet (PUBLIC_IP_SERVICE_URL g)];
          wait = [Log (Waiting (CHECK_INTERVAL_SECONDS g)), Sleep (CHECK_INTERVAL_SECONDS g)]
      in case get_public_ip (ip_response w) of
           None \<Rightarrow> Inr (s, fetch @ [Log IpUnknown] @ wait)
         | Some current_public_ip \<Rightarrow>
             if YStr current_public_ip \<noteq> cached_ip_from_config s then
               (if domain_configurations s = None \<or> domain_configurations s = Some [] then
                  (case cache_ip_in_yaml (YStr current_public_ip) g of
                     Inl e \<Rightarrow> Inl e
                   | Inr (g', written) \<Rightarrow>
                       Inr (s\<lparr>globals := g', cached_ip_from_config := YStr current_public_ip\<rparr>,
                            fetch @ [Log IpDiffers, Log NoDomainsCachingIp, WriteConfig written]
                            @ wait))
                else
                  (case update_domains (MIJNHOST_API_KEY g) current_public_ip (patch_outcome w)
                          (the (domain_configurations s)) (True, 0, []) of
                     (all_updates_successful_for_new_ip, n, updates) \<Rightarrow>
                       if all_updates_successful_for_new_ip then
                         (case cache_ip_in_yaml (YStr current_public_ip) g of
                            Inl e \<Rightarrow> Inl e
                          | Inr (g', written) \<Rightarrow>
                              Inr (s\<lparr>globals := g',
                                     cached_ip_from_config := YStr current_public_ip\<rparr>,
                                   fetch @ [Log IpDiffers] @ updates
                                   @ [Log AllUpdatesSuccessful, WriteConfig written] @ wait))
                       else
                         Inr (s, fetch @ [Log IpDiffers] @ updates @ [Log UpdatesFailed] @ wait)))
             else Inr (s, fetch @ [Log IpMatches] @ wait))"

definition iteration :: "world \<Rightarrow> loop_state \<Rightarrow> error + (loop_state \<times> event list)" where
  "iteration w s =
     (case reload_phase w s of
        Inl e \<Rightarrow> Inl e
      | Inr (s1, evs, continue) \<Rightarrow>
          if continue then Inr (s1, evs)
          else (case reconcile_phase w s1 of
                  Inl e \<Rightarrow> Inl e
                | Inr (s2, evs') \<Rightarrow> Inr (s2, evs @ evs')))"

text \<open>Lines 284 to 311: the state in which the loop is entered, or the exit.\<close>

definition startup :: "load_env \<Rightarrow> int option \<Rightarrow> error + loop_state" where
  "startup env mtime =
     (case load_and_validate_config env initial_globals of
        Inl e \<Rightarrow> Inl e
      | Inr ((ip, doms), g) \<Rightarrow>
          if MIJNHOST_API_KEY g = None then Inl (Exit 1)
          else Inr \<lparr>globals = g, cached_ip_from_config = ip, domain_configurations = doms,
                    dns_config_last_modified_time = (case mtime of None \<Rightarrow> 0 | Some t \<Rightarrow> t)\<rparr>)"

text \<open>The parts of a trace.\<close>

fun is_patch :: "event \<Rightarrow> bool" where
  "is_patch (HttpPatch req outcome) = True"
| "is_patch _ = False"

fun is_write :: "event \<Rightarrow> bool" where
  "is_write (WriteConfig doc) = True"
| "is_write _ = False"

fun is_get :: "event \<Rightarrow> bool" where
  "is_get (HttpGet url) = True"
| "is_get _ = False"

section \<open>Notions used to state the properties\<close>

subsection \<open>Validation\<close>






text \<open>
  The domain entries of a document, and the name of a record entry after trimming.
\<close>

definition domains_of :: "yaml \<Rightarrow> yaml list" where
  "domains_of doc =
     (case doc of
        YDict d \<Rightarrow> (case dict_get d ''domains'' of YList xs \<Rightarrow> xs | _ \<Rightarrow> [])
      | _ \<Rightarrow> [])"

definition record_name_of :: "yaml \<Rightarrow> string" where
  "record_name_of record_item =
     (case record_item of
        YDict d \<Rightarrow> py_strip (py_str (dict_get d ''name''))
      | _ \<Rightarrow> [])"

text \<open>
  The output of a validation pass written back as a document, and what makes it
  normalized.
\<close>

definition record_to_yaml :: "record_config \<Rightarrow> yaml" where
  "record_to_yaml r =
     YDict [(''name'', YStr (record_name r)), (''type'', YStr (record_type r)),
            (''ttl'', YInt (record_ttl r))]"

definition domain_to_yaml :: "domain_config \<Rightarrow> yaml" where
  "domain_to_yaml d =
     YDict [(''domain_name'', YStr (domain_name d)),
            (''records'', YList (map record_to_yaml (records d)))]"

definition normalized_document :: "validated \<Rightarrow> yaml" where
  "normalized_document v =
     YDict [(''global_settings'',
             YDict [(''last_known_ip'', v_last_known_ip v),
                    (''check_interval_seconds'', YInt (v_check_interval v)),
                    (''public_ip_service_url'', YStr (v_service_url v))]),
            (''domains'', YList (map domain_to_yaml (v_domains v)))]"

definition normalized_record :: "record_config \<Rightarrow> bool" where
  "normalized_record r =
     (py_strip (record_name r) = record_name r \<and> record_name r \<noteq> []
      \<and> record_type r \<in> {''A'', ''AAAA''} \<and> 0 < record_ttl r)"

definition normalized_domain :: "domain_config \<Rightarrow> bool" where
  "normalized_domain d =
     (py_strip (domain_name d) = domain_name d \<and> domain_name d \<noteq> []
      \<and> records d \<noteq> [] \<and> list_all normalized_record (records d))"

definition has_scheme :: "string \<Rightarrow> bool" where
  "has_scheme url = (py_startswith url ''http://'' \<or> py_startswith url ''https://'')"

definition normalized :: "validated \<Rightarrow> bool" where
  "normalized v =
     (0 < v_check_interval v \<and> has_scheme (v_service_url v)
      \<and> list_all normalized_domain (v_domains v))"

subsection \<open>Documents\<close>

text \<open>
  The value of a top-level key of a document, and the value of a key of its
  \<^verbatim>\<open>global_settings\<close> mapping.
\<close>

definition doc_get :: "yaml \<Rightarrow> string \<Rightarrow> yaml option" where
  "doc_get doc k = (case doc of YDict d \<Rightarrow> map_of d k | _ \<Rightarrow> None)"

definition settings_of :: "yaml \<Rightarrow> string \<Rightarrow> yaml option" where
  "settings_of doc k =
     (case doc_get doc ''global_settings'' of Some (YDict gs) \<Rightarrow> map_of gs k | _ \<Rightarrow> None)"

subsection \<open>Traces\<close>

text \<open>
  The pairs of domain name and record in the order of the configuration, the PATCH
  requests of a trace with their outcomes, the request that \<^verbatim>\<open>update_dns_record\<close> sends
  for one pair, and the requests expected for a list of pairs when the \<open>n\<close>-th request of
  the iteration is the first of them.
\<close>

definition record_calls :: "domain_config list \<Rightarrow> (string \<times> record_config) list" where
  "record_calls ds = concat (map (\<lambda>d. map (Pair (domain_name d)) (records d)) ds)"

fun patches :: "event list \<Rightarrow> (dns_request \<times> http_outcome) list" where
  "patches [] = []"
| "patches (HttpPatch req outcome # evs) = (req, outcome) # patches evs"
| "patches (ev # evs) = patches evs"

definition patch_request :: "string option \<Rightarrow> string \<Rightarrow> string \<times> record_config \<Rightarrow> dns_request" where
  "patch_request key ip c =
     fst (update_dns_record key ip (fst c) (record_name (snd c)) (record_type (snd c))
            (record_ttl (snd c)) Http2xx)"

definition expected_patches ::
  "string option \<Rightarrow> string \<Rightarrow> (nat \<Rightarrow> http_outcome) \<Rightarrow> nat \<Rightarrow> (string \<times> record_config) list
     \<Rightarrow> (dns_request \<times> http_outcome) list" where
  "expected_patches key ip net n cs =
     map (\<lambda>ic. (patch_request key ip (snd ic), net (fst ic))) (enumerate n cs)"

subsection \<open>Example inputs\<close>

text \<open>
  A configuration with one domain and two records, of which validation keeps one, the
  state in which the loop is entered with it, and what the outside answers in one
  iteration: the modification time and the outcome of reading the file, the IP that the
  echo service returns, and the outcome of every PATCH request.
\<close>

definition example_domain_entries :: "yaml list" where
  "example_domain_entries =
     [YDict [(''domain_name'', YStr ''example.com''),
             (''records'',
              YList [YDict [(''name'', YStr ''www''), (''type'', YStr ''CNAME''),
                            (''ttl'', YInt 300)],
                     YDict [(''name'', YStr ''@''), (''type'', YStr ''a''),
                            (''ttl'', YInt 300)]])]]"

definition example_mapping :: "(string \<times> yaml) list" where
  "example_mapping =
     [(''global_settings'',
       YDict [(''last_known_ip'', YStr ''203.0.113.1''),
              (''check_interval_seconds'', YInt (- 5))]),
      (''domains'', YList example_domain_entries)]"

definition example_document :: yaml where
  "example_document = YDict example_mapping"

definition example_env :: load_env where
  "example_env = \<lparr>env_api_key = Some ''secret'', config_read = Parsed example_document,
                   seed_read = SeedTemplateNotFound\<rparr>"

definition example_state :: loop_state where
  "example_state =
     \<lparr>globals = \<lparr>MIJNHOST_API_KEY = Some ''secret'', CHECK_INTERVAL_SECONDS = 300,
                  PUBLIC_IP_SERVICE_URL = ''https://api.ipify.org?format=json'',
                  parsed_config_data = example_document\<rparr>,
      cached_ip_from_config = YStr ''203.0.113.1'',
      domain_configurations =
        Some [\<lparr>domain_name = ''example.com'',
                records = [\<lparr>record_name = ''@'', record_type = ''A'', record_ttl = 300\<rparr>]\<rparr>],
      dns_config_last_modified_time = 100\<rparr>"

definition example_world :: "int \<Rightarrow> read_result \<Rightarrow> string \<Rightarrow> http_outcome \<Rightarrow> world" where
  "example_world mtime rd ip outcome =
     \<lparr>getmtime = Some mtime,
      load_env = \<lparr>env_api_key = Some ''secret'', config_read = rd,
                  seed_read = SeedTemplateNotFound\<rparr>,
      ip_response = IpJson (Some ip),
      patch_outcome = (\<lambda>n. outcome)\<rparr>"

definition example_request :: dns_request where
  "example_request =
     \<lparr>api_url = ''https://mijn.host/api/v2/domains/example.com/dns'',
      api_key_header = Some ''secret'', payload_type = ''A'',
      payload_name = ''example.com.'', payload_value = ''203.0.113.9'',
      payload_ttl = 300\<rparr>"

definition example_failed_trace :: "event list" where
  "example_failed_trace =
     [HttpGet ''https://api.ipify.org?format=json'', Log IpDiffers,
      Log (ProcessingDomain ''example.com''), HttpPatch example_request HttpError,
      Log UpdatesFailed, Log (Waiting 300), Sleep 300]"

text \<open>
  What validation returns for the example configuration, a record entry with an empty
  name in a configuration of its own, and a configuration whose check interval is
  \<^verbatim>\<open>.inf\<close>.
\<close>

definition example_output :: validated where
  "example_output =
     \<lparr>v_last_known_ip = YStr ''203.0.113.1'',
      v_domains = [\<lparr>domain_name = ''example.com'',
         records = [\<lparr>record_name = ''@'', record_type = ''A'', record_ttl = 300\<rparr>]\<rparr>],
      v_check_interval = 300,
      v_service_url = ''https://api.ipify.org?format=json'',
      v_document = example_document\<rparr>"

definition empty_name_record :: yaml where
  "empty_name_record = YDict [(''name'', YStr []), (''type'', YStr ''A''), (''ttl'', YInt 300)]"

definition empty_name_document :: yaml where
  "empty_name_document =
     YDict [(''domains'',
             YList [YDict [(''domain_name'', YStr ''example.com''),
                           (''records'', YList [empty_name_record])]])]"

definition infinite_interval_document :: yaml where
  "infinite_interval_document =
     YDict [(''global_settings'', YDict [(''check_interval_seconds'', YFloat (FInf False))]),
            (''domains'', YList [])]"

section \<open>Strings and integers\<close>

lemma last_dropWhile_eq: "dropWhile P xs \<noteq> [] \<Longrightarrow> last (dropWhile P xs) = last xs"
  by (induction xs) auto

lemma py_strip_idem: "py_strip (py_strip s) = py_strip s"
proof -
  define u where "u = dropWhile is_space s"
  define v where "v = dropWhile is_space (rev u)"
  have t: "py_strip s = rev v" by (simp add: py_strip_def u_def v_def)
  have front: "dropWhile is_space (rev v) = rev v"
  proof (cases "v = []")
    case True
    then show ?thesis by simp
  next
    case False
    then have "rev u \<noteq> []" by (auto simp: v_def)
    then have u: "u \<noteq> []" by simp
    have "hd (rev v) = last v" using False by (simp add: hd_rev)
    also have "\<dots> = last (rev u)" using False unfolding v_def by (rule last_dropWhile_eq)
    also have "\<dots> = hd u" using u by (simp add: last_rev)
    finally have "hd (rev v) = hd u" .
    moreover have "\<not> is_space (hd u)" using u unfolding u_def by (rule hd_dropWhile)
    ultimately have "\<not> is_space (hd (rev v))" by simp
    with False show ?thesis by (cases "rev v") auto
  qed
  have rear: "dropWhile is_space v = v" by (simp add: v_def)
  show ?thesis unfolding t by (simp add: py_strip_def front rear)
qed

lemma py_strip_no_space: "\<forall>c \<in> set s. \<not> is_space c \<Longrightarrow> py_strip s = s"
proof -
  assume a: "\<forall>c \<in> set s. \<not> is_space c"
  then have 1: "dropWhile is_space s = s" by (cases s) auto
  from a have "\<forall>c \<in> set (rev s). \<not> is_space c" by simp
  then have 2: "dropWhile is_space (rev s) = rev s" by (cases "rev s") auto
  show ?thesis by (simp add: py_strip_def 1 2)
qed

lemma digit_not_space: "is_digit c \<Longrightarrow> \<not> is_space c"
  by (auto simp: is_digit_def is_space_def)

lemma digit_char_is_digit: "d < 10 \<Longrightarrow> is_digit (digit_char d)"
  by (simp add: is_digit_def digit_char_def)

lemma digit_val_digit_char: "d < 10 \<Longrightarrow> digit_val (digit_char d) = d"
  by (simp add: digit_val_def digit_char_def)

lemma dec_of_nat_digits: "\<forall>c \<in> set (dec_of_nat n). is_digit c"
proof (induction n rule: dec_of_nat.induct)
  case (1 n)
  show ?case
  proof (cases "n < 10")
    case True
    then show ?thesis by (simp add: dec_of_nat.simps [of n] digit_char_is_digit)
  next
    case False
    with 1 show ?thesis by (simp add: dec_of_nat.simps [of n] digit_char_is_digit)
  qed
qed

lemma dec_of_nat_nonempty: "dec_of_nat n \<noteq> []"
  by (simp add: dec_of_nat.simps [of n])

lemma int_digits_all_digits:
  "\<forall>c \<in> set ds. is_digit c \<Longrightarrow> prev \<or> ds \<noteq> [] \<Longrightarrow>
     int_digits acc prev ds = Some (foldl (\<lambda>a c. a * 10 + digit_val c) acc ds)"
  by (induction ds arbitrary: acc prev) auto

lemma foldl_dec_of_nat: "foldl (\<lambda>a c. a * 10 + digit_val c) 0 (dec_of_nat n) = n"
proof (induction n rule: dec_of_nat.induct)
  case (1 n)
  show ?case
  proof (cases "n < 10")
    case True
    then show ?thesis by (simp add: dec_of_nat.simps [of n] digit_val_digit_char)
  next
    case False
    with 1 show ?thesis by (simp add: dec_of_nat.simps [of n] digit_val_digit_char)
  qed
qed

lemma int_digits_dec_of_nat: "int_digits 0 False (dec_of_nat n) = Some n"
  by (simp add: int_digits_all_digits dec_of_nat_digits dec_of_nat_nonempty foldl_dec_of_nat)

lemma int_of_str_positive: "0 < n \<Longrightarrow> int_of_str (py_strip (py_str (YInt n))) = Some n"
proof -
  assume n: "0 < n"
  let ?s = "dec_of_nat (nat n)"
  have s: "py_str (YInt n) = ?s" using n by (simp add: py_str_def str_of_int_def)
  have nosp: "\<forall>c \<in> set ?s. \<not> is_space c" using dec_of_nat_digits digit_not_space by blast
  have strip: "py_strip ?s = ?s" using nosp by (rule py_strip_no_space)
  obtain c cs where ccs: "?s = c # cs" using dec_of_nat_nonempty by (cases ?s) auto
  have "is_digit c" using dec_of_nat_digits [of "nat n"] ccs by simp
  then have c: "c \<noteq> CHR ''-''" "c \<noteq> CHR ''+''" by (auto simp: is_digit_def)
  have "int_of_str ?s = map_option int (int_digits 0 False ?s)"
    unfolding int_of_str_def strip using c by (simp add: ccs)
  then show ?thesis using n by (simp add: s strip int_digits_dec_of_nat)
qed

lemma strip_upper_A: "py_strip (py_upper ''A'') = ''A''"
  by (simp add: py_strip_def py_upper_def upper_char_def is_space_def)

lemma strip_upper_AAAA: "py_strip (py_upper ''AAAA'') = ''AAAA''"
  by (simp add: py_strip_def py_upper_def upper_char_def is_space_def)

section \<open>The validation loops\<close>

lemma records_loop_map_filter:
  "records_loop acc rs = acc @ List.map_filter validate_record rs"
  by (induction rs arbitrary: acc) (auto simp: map_filter_simps split: option.splits)

lemma domains_loop_map_filter:
  "domains_loop acc ds = acc @ List.map_filter validate_domain ds"
  by (induction ds arbitrary: acc) (auto simp: map_filter_simps split: option.splits)

lemma dict_get_default_has_key:
  "has_key d k \<Longrightarrow> dict_get_default d k dflt = dict_get d k"
  by (auto simp: has_key_def dict_get_def dict_get_default_def)




lemma dict_get_update_other: "k \<noteq> k' \<Longrightarrow> dict_get (AList.update k' v d) k = dict_get d k"
  by (simp add: dict_get_def dict_get_default_def update_conv')

lemma dict_get_update_same: "dict_get (AList.update k v d) k = v"
  by (simp add: dict_get_def dict_get_default_def update_conv')

lemma dict_get_ensure_global_settings:
  "k \<noteq> ''global_settings'' \<Longrightarrow> dict_get (ensure_global_settings d) k = dict_get d k"
  by (simp add: ensure_global_settings_def dict_get_update_other)

lemma domains_after_ensure:
  "(case dict_get (ensure_domains d) ''domains'' of YList xs \<Rightarrow> xs | _ \<Rightarrow> [])
     = (case dict_get d ''domains'' of YList xs \<Rightarrow> xs | _ \<Rightarrow> [])"
proof (cases "dict_get d ''domains''")
  case (YList xs)
  then have "has_key d ''domains''"
    by (auto simp: has_key_def dict_get_def dict_get_default_def split: option.splits)
  with YList show ?thesis by (simp add: ensure_domains_def)
qed (simp_all add: ensure_domains_def dict_get_update_same)

lemma pipeline_domains:
  assumes "validation_pipeline doc = Inr v"
  shows "v_domains v = List.map_filter validate_domain (domains_of doc)"
proof (cases doc)
  case (YDict d)
  have "dict_get (ensure_global_settings d) ''domains'' = dict_get d ''domains''"
    by (rule dict_get_ensure_global_settings) simp
  then have e: "(case dict_get (ensure_domains (ensure_global_settings d)) ''domains'' of
               YList xs \<Rightarrow> xs | _ \<Rightarrow> [])
            = (case dict_get d ''domains'' of YList xs \<Rightarrow> xs | _ \<Rightarrow> [])"
    by (simp add: domains_after_ensure)
  from assms YDict have "v_domains v = domains_loop []
      (case dict_get (ensure_domains (ensure_global_settings d)) ''domains'' of
               YList xs \<Rightarrow> xs | _ \<Rightarrow> [])"
    by (auto simp: validation_pipeline_def Let_def split: sum.splits)
  then show ?thesis
    by (simp add: e YDict domains_of_def domains_loop_map_filter)
qed (use assms in \<open>simp_all add: validation_pipeline_def\<close>)

section \<open>Validating a normalized document\<close>

lemma validate_record_normalized:
  "validate_record r = Some rc \<Longrightarrow> normalized_record rc"
  by (cases r)
     (auto simp: validate_record_def normalized_record_def Let_def py_strip_idem
        split: if_splits option.splits)

lemma validate_record_to_yaml:
  assumes "normalized_record rc"
  shows "validate_record (record_to_yaml rc) = Some rc"
proof -
  from assms have n: "py_strip (record_name rc) = record_name rc" "record_name rc \<noteq> []"
    and t: "record_type rc = ''A'' \<or> record_type rc = ''AAAA''"
    and l: "0 < record_ttl rc"
    by (auto simp: normalized_record_def)
  from t have t': "py_strip (py_upper (record_type rc)) = record_type rc"
    using strip_upper_A strip_upper_AAAA by auto
  have i: "int_of_str (py_strip (py_str (YInt (record_ttl rc)))) = Some (record_ttl rc)"
    using l by (rule int_of_str_positive)
  have s: "\<And>s. py_str (YStr s) = s" by (simp add: py_str_def)
  show ?thesis
    using n t l
    by (simp add: validate_record_def record_to_yaml_def has_key_def dict_get_default_def
        Let_def s t' i)
qed

lemma map_filter_records_to_yaml:
  "list_all normalized_record rs \<Longrightarrow>
     List.map_filter validate_record (map record_to_yaml rs) = rs"
  by (induction rs) (auto simp: validate_record_to_yaml)

lemma validate_domain_normalized:
  "validate_domain e = Some dc \<Longrightarrow> normalized_domain dc"
proof -
  assume a: "validate_domain e = Some dc"
  have "list_all normalized_record (List.map_filter validate_record rs)" for rs
    by (induction rs) (auto simp: validate_record_normalized split: option.splits)
  with a show ?thesis
    by (cases e)
       (auto simp: validate_domain_def normalized_domain_def Let_def py_strip_idem
          records_loop_map_filter split: if_splits yaml.splits)
qed

lemma validate_domain_to_yaml:
  assumes "normalized_domain dc"
  shows "validate_domain (domain_to_yaml dc) = Some dc"
proof -
  from assms have n: "py_strip (domain_name dc) = domain_name dc" "domain_name dc \<noteq> []"
    and r: "records dc \<noteq> []" and a: "list_all normalized_record (records dc)"
    by (auto simp: normalized_domain_def)
  have s: "\<And>s. py_str (YStr s) = s" by (simp add: py_str_def)
  show ?thesis
    using n r
    by (simp add: validate_domain_def domain_to_yaml_def has_key_def dict_get_default_def
        dict_get_def Let_def s records_loop_map_filter map_filter_records_to_yaml [OF a])
qed

lemma map_filter_domains_to_yaml:
  "list_all normalized_domain ds \<Longrightarrow>
     List.map_filter validate_domain (map domain_to_yaml ds) = ds"
  by (induction ds) (auto simp: validate_domain_to_yaml)

lemma map_filter_domains_normalized:
  "list_all normalized_domain (List.map_filter validate_domain ds)"
  by (induction ds) (auto simp: validate_domain_normalized split: option.splits)

lemma effective_check_interval_pos: "effective_check_interval x = Inr n \<Longrightarrow> 0 < n"
  by (auto simp: effective_check_interval_def DEFAULT_CHECK_INTERVAL_SECONDS_def
      split: sum.splits py_exc.splits if_splits)

lemma effective_service_url_scheme: "has_scheme (effective_service_url x)"
  by (simp add: effective_service_url_def has_scheme_def Let_def)
     (simp add: DEFAULT_PUBLIC_IP_SERVICE_URL_def py_startswith_def)

lemma pipeline_normalized: "validation_pipeline doc = Inr v \<Longrightarrow> normalized v"
  by (cases doc)
     (auto simp: validation_pipeline_def normalized_def Let_def domains_loop_map_filter
        map_filter_domains_normalized effective_service_url_scheme
        effective_check_interval_pos split: sum.splits)

lemma normalized_idem:
  assumes "normalized v"
  shows "validation_pipeline (normalized_document v) = Inr (v\<lparr>v_document := normalized_document v\<rparr>)"
proof -
  from assms have i: "0 < v_check_interval v" and u: "has_scheme (v_service_url v)"
    and d: "list_all normalized_domain (v_domains v)"
    by (auto simp: normalized_def)
  let ?gs = "[(''last_known_ip'', v_last_known_ip v),
              (''check_interval_seconds'', YInt (v_check_interval v)),
              (''public_ip_service_url'', YStr (v_service_url v))]"
  let ?d = "[(''global_settings'', YDict ?gs),
             (''domains'', YList (map domain_to_yaml (v_domains v)))]"
  have e1: "ensure_global_settings ?d = ?d"
    by (simp add: ensure_global_settings_def has_key_def dict_get_def dict_get_default_def)
  have e2: "ensure_domains ?d = ?d"
    by (simp add: ensure_domains_def has_key_def dict_get_def dict_get_default_def)
  have g: "dict_get ?d ''global_settings'' = YDict ?gs"
    by (simp add: dict_get_def dict_get_default_def)
  have ds: "dict_get ?d ''domains'' = YList (map domain_to_yaml (v_domains v))"
    by (simp add: dict_get_def dict_get_default_def)
  have ip: "dict_get ?gs ''last_known_ip'' = v_last_known_ip v"
    by (simp add: dict_get_def dict_get_default_def)
  have ci: "effective_check_interval (dict_get ?gs ''check_interval_seconds'') = Inr (v_check_interval v)"
    using i by (simp add: dict_get_def dict_get_default_def effective_check_interval_def)
  have su: "effective_service_url (dict_get ?gs ''public_ip_service_url'') = v_service_url v"
    using u by (auto simp: dict_get_def dict_get_default_def effective_service_url_def
        has_scheme_def py_str_def Let_def)
  have dl: "domains_loop [] (map domain_to_yaml (v_domains v)) = v_domains v"
    by (simp add: domains_loop_map_filter map_filter_domains_to_yaml [OF d])
  show ?thesis
    unfolding normalized_document_def validation_pipeline_def
    by (simp add: e1 e2 g ds ip ci su dl Let_def del: map_of.simps AList.update.simps)
qed

lemma empty_name_dropped: "record_name_of r = [] \<Longrightarrow> validate_record r = None"
proof (cases r)
  case (YDict d)
  assume e: "record_name_of r = []"
  show ?thesis
  proof (cases "has_key d ''name'' \<and> has_key d ''type'' \<and> has_key d ''ttl''")
    case True
    then have "dict_get_default d ''name'' (YStr []) = dict_get d ''name''"
      by (simp add: dict_get_default_has_key)
    with e YDict True show ?thesis
      by (simp add: validate_record_def record_name_of_def Let_def)
  next
    case False
    with YDict show ?thesis by (auto simp: validate_record_def)
  qed
qed (simp_all add: validate_record_def)

lemma retained_name: 
  assumes "validate_record r = Some rc"
  shows "record_name rc = record_name_of r \<and> record_name rc \<noteq> []"
proof (cases r)
  case (YDict d)
  from assms YDict have k: "has_key d ''name'' \<and> has_key d ''type'' \<and> has_key d ''ttl''"
    by (auto simp: validate_record_def split: if_splits)
  then have n: "dict_get_default d ''name'' (YStr []) = dict_get d ''name''"
    by (simp add: dict_get_default_has_key)
  from assms YDict k have "record_name rc = py_strip (py_str (dict_get_default d ''name'' (YStr [])))"
    by (auto simp: validate_record_def Let_def split: if_splits option.splits)
  moreover from validate_record_normalized [OF assms] have "record_name rc \<noteq> []"
    by (simp add: normalized_record_def)
  ultimately show ?thesis by (simp add: YDict record_name_of_def n)
qed (use assms in \<open>simp_all add: validate_record_def\<close>)

section \<open>The check interval\<close>

lemma effective_check_interval_cases:
  "effective_check_interval v =
     (case py_int (if v \<noteq> YNull then v else YInt 300) of
        Inl OverflowError \<Rightarrow> Inl (Uncaught OverflowError)
      | Inl AttributeError \<Rightarrow> Inl (Uncaught AttributeError)
      | Inl e \<Rightarrow> Inr 300
      | Inr n \<Rightarrow> Inr (if n \<le> 0 then 300 else n))"
  by (simp add: effective_check_interval_def DEFAULT_CHECK_INTERVAL_SECONDS_def
      split: sum.splits py_exc.splits)

lemma negative_interval: "effective_check_interval (YInt (- 5)) = Inr 300"
  by (simp add: effective_check_interval_def DEFAULT_CHECK_INTERVAL_SECONDS_def)

section \<open>The document in memory and on disk\<close>

lemma map_of_ensure_global_settings:
  "k \<noteq> ''global_settings'' \<Longrightarrow> map_of (ensure_global_settings d) k = map_of d k"
  by (simp add: ensure_global_settings_def update_conv')

lemma ensure_domains_present:
  "map_of d ''domains'' = Some (YList ds) \<Longrightarrow> ensure_domains d = d"
  by (simp add: ensure_domains_def has_key_def dict_get_def dict_get_default_def)

lemma settings_after_ensure:
  "(case dict_get (ensure_global_settings d) ''global_settings'' of YDict kvs \<Rightarrow> kvs | _ \<Rightarrow> [])
     = (case dict_get d ''global_settings'' of YDict kvs \<Rightarrow> kvs | _ \<Rightarrow> [])"
proof (cases "dict_get d ''global_settings''")
  case (YDict kvs)
  then have "has_key d ''global_settings''"
    by (auto simp: has_key_def dict_get_def dict_get_default_def split: option.splits)
  with YDict show ?thesis by (simp add: ensure_global_settings_def)
qed (simp_all add: ensure_global_settings_def dict_get_update_same)

lemma settings_of_dict:
  "settings_of (YDict d) k
     = map_of (case dict_get d ''global_settings'' of YDict kvs \<Rightarrow> kvs | _ \<Rightarrow> []) k"
proof (cases "map_of d ''global_settings''")
  case None
  then show ?thesis
    by (simp add: settings_of_def doc_get_def dict_get_def dict_get_default_def)
next
  case (Some v)
  then show ?thesis
    by (cases v) (simp_all add: settings_of_def doc_get_def dict_get_def dict_get_default_def)
qed

lemma pipeline_document:
  assumes "validation_pipeline (YDict d) = Inr v" and "map_of d ''domains'' = Some (YList ds)"
  shows "v_document v = YDict (ensure_global_settings d)"
proof -
  have "map_of (ensure_global_settings d) ''domains'' = Some (YList ds)"
    using assms(2) by (simp add: map_of_ensure_global_settings)
  then have "ensure_domains (ensure_global_settings d) = ensure_global_settings d"
    by (rule ensure_domains_present)
  with assms(1) show ?thesis
    by (auto simp: validation_pipeline_def Let_def split: sum.splits)
qed

lemma cache_ip_in_yaml_written:
  assumes "parsed_config_data g = YDict d" and "map_of d ''domains'' = Some (YList ds)"
  shows "\<exists>g' written. cache_ip_in_yaml ip g = Inr (g', written)
      \<and> doc_get written ''domains'' = Some (YList ds)
      \<and> (\<forall>k. k \<noteq> ''global_settings'' \<longrightarrow> doc_get written k = map_of d k)
      \<and> settings_of written ''last_known_ip'' = Some ip
      \<and> settings_of written ''check_interval_seconds'' = Some (YInt (CHECK_INTERVAL_SECONDS g))
      \<and> settings_of written ''public_ip_service_url'' = Some (YStr (PUBLIC_IP_SERVICE_URL g))
      \<and> (\<forall>k. k \<noteq> ''last_known_ip'' \<and> k \<noteq> ''check_interval_seconds''
               \<and> k \<noteq> ''public_ip_service_url''
              \<longrightarrow> settings_of written k = settings_of (YDict d) k)"
proof -
  from assms(2) have ne: "d \<noteq> []" by auto
  define d1 where "d1 = ensure_global_settings d"
  define gs where "gs = (case dict_get d1 ''global_settings'' of YDict kvs \<Rightarrow> kvs | _ \<Rightarrow> [])"
  define gs3 where "gs3 = AList.update ''public_ip_service_url'' (YStr (PUBLIC_IP_SERVICE_URL g))
               (AList.update ''check_interval_seconds'' (YInt (CHECK_INTERVAL_SECONDS g))
                 (AList.update ''last_known_ip'' ip gs))"
  define d2 where "d2 = AList.update ''global_settings'' (YDict gs3) d1"
  have other: "map_of d2 k = map_of d k" if "k \<noteq> ''global_settings''" for k
    using that by (simp add: d2_def d1_def update_conv' map_of_ensure_global_settings)
  have dom: "map_of d2 ''domains'' = Some (YList ds)"
    using assms(2) by (simp add: other)
  then have e: "ensure_domains d2 = d2" by (rule ensure_domains_present)
  have o: "or_empty_structure (YDict d) = YDict d"
    using ne by (simp add: or_empty_structure_def)
  have c: "cache_ip_in_yaml ip g = Inr (g\<lparr>parsed_config_data := YDict d2\<rparr>, YDict d2)"
    unfolding cache_ip_in_yaml_def assms(1) o
    by (simp add: Let_def e flip: d1_def gs_def gs3_def d2_def)
  have g2: "map_of d2 ''global_settings'' = Some (YDict gs3)"
    by (simp add: d2_def update_conv')
  have st: "settings_of (YDict d2) k = map_of gs3 k" for k
    by (simp add: settings_of_def doc_get_def g2)
  have old: "map_of gs k = settings_of (YDict d) k" for k
    unfolding gs_def d1_def settings_after_ensure by (simp add: settings_of_dict)
  have f1: "map_of gs3 ''last_known_ip'' = Some ip"
    by (simp add: gs3_def update_conv')
  have f2: "map_of gs3 ''check_interval_seconds'' = Some (YInt (CHECK_INTERVAL_SECONDS g))"
    by (simp add: gs3_def update_conv')
  have f3: "map_of gs3 ''public_ip_service_url'' = Some (YStr (PUBLIC_IP_SERVICE_URL g))"
    by (simp add: gs3_def update_conv')
  have f4: "map_of gs3 k = settings_of (YDict d) k"
    if "k \<noteq> ''last_known_ip'' \<and> k \<noteq> ''check_interval_seconds''
               \<and> k \<noteq> ''public_ip_service_url''" for k
    using that by (simp add: gs3_def update_conv' old)
  have dg: "doc_get (YDict d2) k = map_of d2 k" for k by (simp add: doc_get_def)
  show ?thesis
    unfolding c using dom other f4 by (simp add: st dg f1 f2 f3)
qed

lemma load_parsed:
  assumes "config_read env = Parsed (YDict d)" and "d \<noteq> []"
    and "load_and_validate_config env g = Inr ((last_ip, Some valid), g1)"
  shows "\<exists>v. validation_pipeline (YDict d) = Inr v \<and> parsed_config_data g1 = v_document v
           \<and> CHECK_INTERVAL_SECONDS g1 = v_check_interval v
           \<and> PUBLIC_IP_SERVICE_URL g1 = v_service_url v \<and> valid = v_domains v"
proof -
  have o: "or_empty_structure (YDict d) = YDict d"
    using assms(2) by (simp add: or_empty_structure_def)
  from assms(3) have k: "\<not> (env_api_key env = None \<or> env_api_key env = Some [])"
    by (auto simp: load_and_validate_config_def Let_def split: if_splits)
  from assms(3) k show ?thesis
    by (cases "validation_pipeline (YDict d)")
       (auto simp: load_and_validate_config_def Let_def assms(1) o)
qed

section \<open>The update loops and the phases of an iteration\<close>

lemma patches_append: "patches (xs @ ys) = patches xs @ patches ys"
  by (induction xs rule: patches.induct) auto

lemma writes_append: "list_ex is_write (xs @ ys) = (list_ex is_write xs \<or> list_ex is_write ys)"
  by (induction xs) auto

lemma expected_patches_append:
  "expected_patches key ip net n (xs @ ys) =
     expected_patches key ip net n xs @ expected_patches key ip net (n + length xs) ys"
  by (simp add: expected_patches_def enumerate_append_eq)

lemma expected_patches_requests:
  "map fst (expected_patches key ip net n cs) = map (patch_request key ip) cs"
  by (induction cs arbitrary: n) (simp_all add: expected_patches_def)

lemma update_records_closed:
  "update_records key ip dn net rs (ok, n, evs) = (ok', n', evs') \<Longrightarrow>
     n' = n + length rs
     \<and> ok' = (ok \<and> list_all (\<lambda>c. snd c = Http2xx) (expected_patches key ip net n (map (Pair dn) rs)))
     \<and> patches evs' = patches evs @ expected_patches key ip net n (map (Pair dn) rs)
     \<and> list_ex is_write evs' = list_ex is_write evs
     \<and> list_ex is_get evs' = list_ex is_get evs"
proof (induction rs arbitrary: ok n evs)
  case Nil
  then show ?case by (simp add: expected_patches_def)
next
  case (Cons r rs)
  from Cons.prems Cons.IH [of "if net n = Http2xx then ok else False" "Suc n"
      "evs @ [HttpPatch (patch_request key ip (dn, r)) (net n)]"]
  show ?case
    by (auto simp: update_dns_record_def patch_request_def expected_patches_def patches_append
        list_ex_iff split: if_splits)
qed

lemma update_domains_closed:
  "update_domains key ip net ds (ok, n, evs) = (ok', n', evs') \<Longrightarrow>
     n' = n + length (record_calls ds)
     \<and> ok' = (ok \<and> list_all (\<lambda>c. snd c = Http2xx) (expected_patches key ip net n (record_calls ds)))
     \<and> patches evs' = patches evs @ expected_patches key ip net n (record_calls ds)
     \<and> list_ex is_write evs' = list_ex is_write evs
     \<and> list_ex is_get evs' = list_ex is_get evs"
proof (induction ds arbitrary: ok n evs)
  case Nil
  then show ?case by (simp add: record_calls_def expected_patches_def)
next
  case (Cons d ds)
  obtain ok1 n1 evs1 where r:
    "update_records key ip (domain_name d) net (records d)
       (ok, n, evs @ [Log (ProcessingDomain (domain_name d))]) = (ok1, n1, evs1)"
    by (metis prod_cases3)
  note r' = update_records_closed [OF r]
  from Cons.prems r have "update_domains key ip net ds (ok1, n1, evs1) = (ok', n', evs')"
    by simp
  note d' = Cons.IH [OF this]
  have rc: "record_calls (d # ds) = map (Pair (domain_name d)) (records d) @ record_calls ds"
    by (simp add: record_calls_def)
  show ?case
    using r' d' by (auto simp: rc expected_patches_append patches_append list_ex_iff)
qed

lemma cache_ip_in_yaml_dict:
  "is_dict (parsed_config_data g) \<Longrightarrow>
     \<exists>d. cache_ip_in_yaml ip g = Inr (g\<lparr>parsed_config_data := YDict d\<rparr>, YDict d)"
  by (cases "parsed_config_data g")
     (auto simp: cache_ip_in_yaml_def or_empty_structure_def empty_structure_def Let_def)

lemma cache_ip_in_yaml_result:
  "cache_ip_in_yaml ip g = Inr (g', written) \<Longrightarrow> is_dict (parsed_config_data g')"
  by (auto simp: cache_ip_in_yaml_def Let_def split: yaml.splits)

lemma load_keeps_dict:
  "is_dict (parsed_config_data g) \<Longrightarrow> load_and_validate_config env g = Inr (r, g') \<Longrightarrow>
     is_dict (parsed_config_data g')"
  by (auto simp: load_and_validate_config_def validation_pipeline_def Let_def
      split: if_splits option.splits sum.splits yaml.splits)

lemma load_sentinel:
  "config_read env = YamlError \<Longrightarrow>
     load_and_validate_config env g = Inr ((YNull, None), g\<lparr>MIJNHOST_API_KEY := env_api_key env\<rparr>)"
  by (simp add: load_and_validate_config_def Let_def)

lemma reload_phase_quiet:
  "reload_phase w s = Inr (s1, evs, c) \<Longrightarrow>
     patches evs = [] \<and> \<not> list_ex is_write evs \<and> \<not> list_ex is_get evs"
  by (auto simp: reload_phase_def Let_def split: option.splits if_splits sum.splits prod.splits)

lemma reload_phase_dict:
  "is_dict (parsed_config_data (globals s)) \<Longrightarrow> reload_phase w s = Inr (s1, evs, c) \<Longrightarrow>
     is_dict (parsed_config_data (globals s1))"
  by (auto simp: reload_phase_def Let_def dest: load_keeps_dict
      split: option.splits if_splits sum.splits prod.splits)

lemma reconcile_updates:
  assumes "get_public_ip (ip_response w) = Some ip"
    and "YStr ip \<noteq> cached_ip_from_config s"
    and "domain_configurations s = Some ds" and "ds \<noteq> []"
    and "update_domains (MIJNHOST_API_KEY (globals s)) ip (patch_outcome w) ds (True, 0, [])
           = (ok, n, updates)"
  shows "reconcile_phase w s =
     (if ok then
        (case cache_ip_in_yaml (YStr ip) (globals s) of
           Inl e \<Rightarrow> Inl e
         | Inr (g', written) \<Rightarrow>
             Inr (s\<lparr>globals := g', cached_ip_from_config := YStr ip\<rparr>,
                  [HttpGet (PUBLIC_IP_SERVICE_URL (globals s)), Log IpDiffers] @ updates
                  @ [Log AllUpdatesSuccessful, WriteConfig written,
                     Log (Waiting (CHECK_INTERVAL_SECONDS (globals s))),
                     Sleep (CHECK_INTERVAL_SECONDS (globals s))]))
      else Inr (s, [HttpGet (PUBLIC_IP_SERVICE_URL (globals s)), Log IpDiffers] @ updates
                   @ [Log UpdatesFailed,
                      Log (Waiting (CHECK_INTERVAL_SECONDS (globals s))),
                      Sleep (CHECK_INTERVAL_SECONDS (globals s))]))"
  using assms by (auto simp: reconcile_phase_def Let_def split: sum.splits)

lemma reconcile_no_domains:
  assumes "get_public_ip (ip_response w) = Some ip"
    and "domain_configurations s = None \<or> domain_configurations s = Some []"
    and "reconcile_phase w s = Inr (s', evs)"
  shows "patches evs = []"
  using assms
  by (auto simp: reconcile_phase_def Let_def split: if_splits sum.splits)

lemma failed_reload:
  assumes "config_read (load_env w) = YamlError"
    and "getmtime w = Some t" and "t \<noteq> dns_config_last_modified_time s"
  shows "iteration w s =
     Inr (s\<lparr>globals := (globals s)\<lparr>MIJNHOST_API_KEY := env_api_key (load_env w)\<rparr>,
            cached_ip_from_config := YNull, domain_configurations := None,
            dns_config_last_modified_time := t\<rparr>,
          [Log ChangeDetected,
           Log (if env_api_key (load_env w) = None then ApiKeyNoLongerSet else ReloadFailed),
           Sleep (if env_api_key (load_env w) = None then DEFAULT_CHECK_INTERVAL_SECONDS
                  else if CHECK_INTERVAL_SECONDS (globals s) > 0
                       then CHECK_INTERVAL_SECONDS (globals s)
                       else DEFAULT_CHECK_INTERVAL_SECONDS)])"
  using assms
  by (simp add: iteration_def reload_phase_def load_sentinel Let_def)

text \<open>
  \<^verbatim>\<open>parsed_config_data\<close> is a mapping in every state the loop reaches: it is one at the
  start, and loading and saving only ever store one.
\<close>

lemma startup_dict: "startup env mtime = Inr s \<Longrightarrow> is_dict (parsed_config_data (globals s))"
proof -
  assume a: "startup env mtime = Inr s"
  have "is_dict (parsed_config_data initial_globals)" by (simp add: initial_globals_def)
  from load_keeps_dict [OF this] a show ?thesis
    by (auto simp: startup_def split: sum.splits prod.splits if_splits)
qed

lemma reconcile_phase_dict:
  "is_dict (parsed_config_data (globals s)) \<Longrightarrow> reconcile_phase w s = Inr (s', evs) \<Longrightarrow>
     is_dict (parsed_config_data (globals s'))"
  by (auto simp: reconcile_phase_def Let_def dest: cache_ip_in_yaml_result
      split: option.splits if_splits sum.splits prod.splits)

lemma iteration_dict:
  "is_dict (parsed_config_data (globals s)) \<Longrightarrow> iteration w s = Inr (s', evs) \<Longrightarrow>
     is_dict (parsed_config_data (globals s'))"
  by (auto simp: iteration_def split: sum.splits prod.splits if_splits
      dest: reload_phase_dict reconcile_phase_dict)

lemma reconcile_trace:
  assumes ip: "get_public_ip (ip_response w) = Some ip"
    and differs: "YStr ip \<noteq> cached_ip_from_config s"
    and doms: "domain_configurations s = Some ds" "ds \<noteq> []"
    and inv: "is_dict (parsed_config_data (globals s))"
  shows "\<exists>s' evs. reconcile_phase w s = Inr (s', evs)
      \<and> patches evs = expected_patches (MIJNHOST_API_KEY (globals s)) ip (patch_outcome w) 0
                         (record_calls ds)
      \<and> fst (update_domains (MIJNHOST_API_KEY (globals s)) ip (patch_outcome w) ds (True, 0, []))
          = list_all (\<lambda>c. snd c = Http2xx) (patches evs)
      \<and> list_ex is_write evs = list_all (\<lambda>c. snd c = Http2xx) (patches evs)"
proof -
  obtain ok n updates where u:
    "update_domains (MIJNHOST_API_KEY (globals s)) ip (patch_outcome w) ds (True, 0, [])
       = (ok, n, updates)"
    by (metis prod_cases3)
  note c = update_domains_closed [OF u]
  note r = reconcile_updates [OF ip differs doms u]
  from c have p: "patches updates =
      expected_patches (MIJNHOST_API_KEY (globals s)) ip (patch_outcome w) 0 (record_calls ds)"
    and k: "ok = list_all (\<lambda>c. snd c = Http2xx) (patches updates)"
    and nw: "\<not> list_ex is_write updates"
    by simp_all
  show ?thesis
  proof (cases ok)
    case True
    from cache_ip_in_yaml_dict [OF inv, of "YStr ip"] obtain d where
      "cache_ip_in_yaml (YStr ip) (globals s)
         = Inr ((globals s)\<lparr>parsed_config_data := YDict d\<rparr>, YDict d)" by blast
    with True r p k u show ?thesis by (simp add: patches_append writes_append)
  next
    case False
    with r p k u nw show ?thesis by (simp add: patches_append writes_append)
  qed
qed

section \<open>The example inputs evaluated\<close>

lemma startup_example: "startup example_env (Some 100) = Inr example_state"
  by code_simp

lemma example_ip: "get_public_ip (ip_response (example_world t rd ip outcome)) = (if ip = [] then None else Some ip)"
  by (simp add: example_world_def)

lemma example_differs: "YStr ''203.0.113.9'' \<noteq> cached_ip_from_config example_state"
  by (simp add: example_state_def)

lemma example_domains:
  "domain_configurations example_state =
     Some [\<lparr>domain_name = ''example.com'',
             records = [\<lparr>record_name = ''@'', record_type = ''A'', record_ttl = 300\<rparr>]\<rparr>]"
  by (simp add: example_state_def)

lemma example_dict: "is_dict (parsed_config_data (globals example_state))"
  by (simp add: example_state_def example_document_def)

lemma example_expected:
  "expected_patches (MIJNHOST_API_KEY (globals example_state)) ''203.0.113.9''
     (patch_outcome (example_world t rd ''203.0.113.9'' outcome)) 0
     (record_calls [\<lparr>domain_name = ''example.com'',
             records = [\<lparr>record_name = ''@'', record_type = ''A'', record_ttl = 300\<rparr>]\<rparr>])
   = [(example_request, outcome)]"
  by (simp add: expected_patches_def record_calls_def patch_request_def update_dns_record_def
      fqdn_record_name_def example_request_def example_state_def example_world_def)

lemma example_failed_run:
  "reconcile_phase (example_world 100 YamlError ''203.0.113.9'' HttpError) example_state
     = Inr (example_state, example_failed_trace)"
  by code_simp

lemma example_changed:
  "config_read (load_env (example_world 200 YamlError ip outcome)) = YamlError"
  "getmtime (example_world 200 YamlError ip outcome) = Some 200"
  "200 \<noteq> dns_config_last_modified_time example_state"
  by (simp_all add: example_world_def example_state_def)

lemma example_validation: "validation_pipeline example_document = Inr example_output"
  by code_simp


lemma empty_name_record_name: "record_name_of empty_name_record = []"
  by code_simp

lemma infinite_interval_startup:
  "startup \<lparr>env_api_key = Some ''secret'', config_read = Parsed infinite_interval_document,
            seed_read = SeedTemplateNotFound\<rparr> (Some 100) = Inl (Uncaught OverflowError)"
  by code_simp

lemma example_load:
  "load_and_validate_config example_env initial_globals
     = Inr ((YStr ''203.0.113.1'', Some (v_domains example_output)), globals example_state)"
  by code_simp

section \<open>The claims\<close>

text \<open>
  C4. In a cycle in which the resolved IP differs from the cached IP and at least one
  domain is configured, \<^verbatim>\<open>update_dns_record\<close> is called once for every record of every
  domain, in the order of the configuration and whatever the earlier calls returned: the
  PATCH requests of the trace are exactly the requests of \<open>record_calls\<close>, the \<open>i\<close>-th of
  them answered by the \<open>i\<close>-th outcome. The aggregate flag is the conjunction of the
  results of all calls, and the configuration is written exactly when it is true.
\<close>

theorem update_every_record_once:
  assumes "get_public_ip (ip_response w) = Some ip"
    and "YStr ip \<noteq> cached_ip_from_config s"
    and "domain_configurations s = Some ds" and "ds \<noteq> []"
    and "is_dict (parsed_config_data (globals s))"
  shows "\<exists>s' evs. reconcile_phase w s = Inr (s', evs)
      \<and> patches evs = expected_patches (MIJNHOST_API_KEY (globals s)) ip (patch_outcome w) 0
                         (record_calls ds)
      \<and> fst (update_domains (MIJNHOST_API_KEY (globals s)) ip (patch_outcome w) ds (True, 0, []))
          = list_all (\<lambda>c. snd c = Http2xx) (patches evs)
      \<and> list_ex is_write evs = list_all (\<lambda>c. snd c = Http2xx) (patches evs)"
  using assms by (rule reconcile_trace)

theorem update_every_record_once_witness:
  "\<exists>s' evs. reconcile_phase (example_world 100 YamlError ''203.0.113.9'' HttpError) example_state
               = Inr (s', evs)
      \<and> patches evs = [(example_request, HttpError)]
      \<and> list_ex is_write evs = False"
proof -
  have ip: "get_public_ip (ip_response (example_world 100 YamlError ''203.0.113.9'' HttpError))
              = Some ''203.0.113.9''"
    by (simp add: example_ip)
  have ne: "[\<lparr>domain_name = ''example.com'',
             records = [\<lparr>record_name = ''@'', record_type = ''A'', record_ttl = 300\<rparr>]\<rparr>] \<noteq> []"
    by simp
  show ?thesis
    using update_every_record_once [OF ip example_differs example_domains ne example_dict]
    by (auto simp: example_expected)
qed

text \<open>
  C1. In a cycle in which the resolved IP differs from the cached IP and at least one
  call of \<^verbatim>\<open>update_dns_record\<close> returns false, \<^verbatim>\<open>cache_ip_in_yaml\<close> is not called and
  the state, \<^verbatim>\<open>cached_ip_from_config\<close> included, is left as it was. The next iteration, when
  the file has not changed and the resolver returns the same IP, sends the same requests
  again.
\<close>

theorem failed_update_keeps_cached_ip:
  assumes ip: "get_public_ip (ip_response w) = Some ip"
    and differs: "YStr ip \<noteq> cached_ip_from_config s"
    and run: "reconcile_phase w s = Inr (s', evs)"
    and failed: "list_ex (\<lambda>c. snd c \<noteq> Http2xx) (patches evs)"
    and inv: "is_dict (parsed_config_data (globals s))"
  shows "\<not> list_ex is_write evs \<and> s' = s
      \<and> (\<forall>w'. getmtime w' = Some (dns_config_last_modified_time s')
                \<and> get_public_ip (ip_response w') = Some ip \<longrightarrow>
            (\<exists>s'' evs'. iteration w' s' = Inr (s'', evs')
                \<and> map fst (patches evs') = map fst (patches evs)))"
proof -
  from failed have ne: "patches evs \<noteq> []" by (auto simp: list_ex_iff)
  have "\<not> (domain_configurations s = None \<or> domain_configurations s = Some [])"
    using reconcile_no_domains [OF ip _ run] ne by blast
  then obtain ds where doms: "domain_configurations s = Some ds" "ds \<noteq> []" by auto
  obtain ok n updates where u:
    "update_domains (MIJNHOST_API_KEY (globals s)) ip (patch_outcome w) ds (True, 0, [])
       = (ok, n, updates)"
    by (metis prod_cases3)
  note c = update_domains_closed [OF u]
  note r = reconcile_updates [OF ip differs doms u]
  from c have k: "ok = list_all (\<lambda>c. snd c = Http2xx) (patches updates)"
    and p: "patches updates =
      expected_patches (MIJNHOST_API_KEY (globals s)) ip (patch_outcome w) 0 (record_calls ds)"
    and nw: "\<not> list_ex is_write updates"
    by simp_all
  have "\<not> ok"
  proof
    assume ok
    with r run have "patches evs = patches updates"
      by (auto simp: patches_append split: sum.splits)
    with k \<open>ok\<close> failed show False by (auto simp: list_ex_iff list_all_iff)
  qed
  with r run have s': "s' = s" and evs: "patches evs = patches updates"
    and now: "\<not> list_ex is_write evs"
    using nw by (auto simp: patches_append writes_append)
  have nxt: "\<exists>s'' evs'. iteration w' s' = Inr (s'', evs')
                \<and> map fst (patches evs') = map fst (patches evs)"
    if m: "getmtime w' = Some (dns_config_last_modified_time s')"
      and ip': "get_public_ip (ip_response w') = Some ip" for w'
  proof -
    have rl: "reload_phase w' s = Inr (s, [], False)"
      using m by (simp add: reload_phase_def s')
    from reconcile_trace [OF ip' differs doms inv] obtain s'' evs' where
      rc: "reconcile_phase w' s = Inr (s'', evs')"
      and pp: "patches evs' = expected_patches (MIJNHOST_API_KEY (globals s)) ip
                 (patch_outcome w') 0 (record_calls ds)"
      by blast
    have "iteration w' s' = Inr (s'', evs')"
      by (simp add: iteration_def rl rc s')
    moreover have "map fst (patches evs') = map fst (patches evs)"
      by (simp add: pp evs p expected_patches_requests)
    ultimately show ?thesis by blast
  qed
  show ?thesis using now s' nxt by blast
qed

theorem failed_update_keeps_cached_ip_witness:
  "\<not> list_ex is_write example_failed_trace
   \<and> (\<exists>s'' evs'. iteration (example_world 100 YamlError ''203.0.113.9'' Http2xx) example_state
                     = Inr (s'', evs')
         \<and> map fst (patches evs') = [example_request])"
proof -
  have ip: "get_public_ip (ip_response (example_world 100 YamlError ''203.0.113.9'' outcome))
              = Some ''203.0.113.9''" for outcome
    by (simp add: example_ip)
  have failed: "list_ex (\<lambda>c. snd c \<noteq> Http2xx) (patches example_failed_trace)"
    by (simp add: example_failed_trace_def)
  have m: "getmtime (example_world 100 YamlError ''203.0.113.9'' Http2xx)
             = Some (dns_config_last_modified_time example_state)"
    by (simp add: example_world_def example_state_def)
  have p: "map fst (patches example_failed_trace) = [example_request]"
    by (simp add: example_failed_trace_def)
  from failed_update_keeps_cached_ip [OF ip example_differs example_failed_run failed example_dict]
  have "\<not> list_ex is_write example_failed_trace"
    and "\<forall>w'. getmtime w' = Some (dns_config_last_modified_time example_state)
                \<and> get_public_ip (ip_response w') = Some ''203.0.113.9'' \<longrightarrow>
            (\<exists>s'' evs'. iteration w' example_state = Inr (s'', evs')
                \<and> map fst (patches evs') = map fst (patches example_failed_trace))"
    by simp_all
  with m ip p show ?thesis by metis
qed

text \<open>
  C9. In an iteration that reaches the comparison with a resolved IP equal to the cached
  IP, no PATCH request is sent and the configuration is not written: after the reload
  phase the trace is the lookup, the log line, and the wait.
\<close>

theorem equal_ip_no_update:
  assumes "reload_phase w s = Inr (s1, evs0, False)"
    and "get_public_ip (ip_response w) = Some ip"
    and "YStr ip = cached_ip_from_config s1"
  shows "\<exists>evs. iteration w s = Inr (s1, evs) \<and> patches evs = [] \<and> \<not> list_ex is_write evs
      \<and> evs = evs0 @ [HttpGet (PUBLIC_IP_SERVICE_URL (globals s1)), Log IpMatches,
                       Log (Waiting (CHECK_INTERVAL_SECONDS (globals s1))),
                       Sleep (CHECK_INTERVAL_SECONDS (globals s1))]"
  using assms reload_phase_quiet [OF assms(1)]
  by (simp add: iteration_def reconcile_phase_def Let_def patches_append writes_append)

theorem equal_ip_no_update_witness:
  "iteration (example_world 100 YamlError ''203.0.113.1'' HttpError) example_state
     = Inr (example_state,
            [HttpGet ''https://api.ipify.org?format=json'', Log IpMatches,
             Log (Waiting 300), Sleep 300])"
proof -
  have r: "reload_phase (example_world 100 YamlError ''203.0.113.1'' HttpError) example_state
             = Inr (example_state, [], False)"
    by (simp add: reload_phase_def example_world_def example_state_def)
  have ip: "get_public_ip (ip_response (example_world 100 YamlError ''203.0.113.1'' HttpError))
              = Some ''203.0.113.1''"
    by (simp add: example_ip)
  have c: "YStr ''203.0.113.1'' = cached_ip_from_config example_state"
    by (simp add: example_state_def)
  show ?thesis
    using equal_ip_no_update [OF r ip c] by (simp add: example_state_def)
qed



text \<open>
  C3. What the loop does when a change is detected and the load fails: the modification
  time is stored all the same, the cached IP and the domains are replaced by \<^verbatim>\<open>None\<close>,
  and as long as the file keeps that modification time no further load is attempted.
\<close>

theorem failed_reload_advances_mtime:
  assumes "config_read (load_env w) = YamlError"
    and "getmtime w = Some t" and "t \<noteq> dns_config_last_modified_time s"
  shows "\<exists>s' evs. iteration w s = Inr (s', evs)
      \<and> dns_config_last_modified_time s' = t
      \<and> cached_ip_from_config s' = YNull \<and> domain_configurations s' = None
      \<and> (\<forall>w'. getmtime w' = Some t \<longrightarrow> reload_phase w' s' = Inr (s', [], False))"
  using assms by (simp add: failed_reload reload_phase_def)

theorem failed_reload_advances_mtime_witness:
  "\<exists>s' evs. iteration (example_world 200 YamlError ''203.0.113.9'' Http2xx) example_state
               = Inr (s', evs)
      \<and> dns_config_last_modified_time s' = 200
      \<and> cached_ip_from_config s' = YNull \<and> domain_configurations s' = None
      \<and> reload_phase (example_world 200 YamlError ''203.0.113.9'' Http2xx) s' = Inr (s', [], False)"
proof -
  from failed_reload_advances_mtime [OF example_changed, of "''203.0.113.9''" Http2xx]
  obtain s' evs where
    a: "iteration (example_world 200 YamlError ''203.0.113.9'' Http2xx) example_state = Inr (s', evs)"
      "dns_config_last_modified_time s' = 200"
      "cached_ip_from_config s' = YNull" "domain_configurations s' = None"
    and b: "\<forall>w'. getmtime w' = Some 200 \<longrightarrow> reload_phase w' s' = Inr (s', [], False)"
    by blast
  from b example_changed(2)
  have "reload_phase (example_world 200 YamlError ''203.0.113.9'' Http2xx) s' = Inr (s', [], False)"
    by blast
  with a show ?thesis by blast
qed



text \<open>
  C7. Validation is idempotent: when a validation pass returns \<open>v\<close> for some document,
  a pass over \<open>v\<close> written back as a document (its settings under \<^verbatim>\<open>global_settings\<close>,
  its domains and records under \<^verbatim>\<open>domains\<close>) returns the same cached IP, interval,
  service URL and domains, and leaves that document as it is.
\<close>

theorem validation_idempotent:
  assumes "validation_pipeline doc = Inr v"
  shows "validation_pipeline (normalized_document v)
           = Inr (v\<lparr>v_document := normalized_document v\<rparr>)"
  using assms by (intro normalized_idem pipeline_normalized)

theorem validation_idempotent_witness:
  "validation_pipeline (normalized_document example_output)
     = Inr (example_output\<lparr>v_document := normalized_document example_output\<rparr>)"
  by (rule validation_idempotent [OF example_validation])

text \<open>
  C2, as the code has it. A record entry whose name is empty after trimming is dropped by
  validation: every record that validation keeps carries its trimmed name, and that name
  is not empty, so the apex has to be written \<^verbatim>\<open>@\<close>. \<^verbatim>\<open>update_dns_record\<close>, given the
  name \<^verbatim>\<open>@\<close> or the empty name, builds the domain name with a trailing dot as record
  name and displays it as \<^verbatim>\<open>@\<close>.
\<close>

theorem empty_name_dropped_apex_by_at:
  "(record_name_of r = [] \<longrightarrow> validate_record r = None)
   \<and> (\<forall>rc. validate_record r = Some rc \<longrightarrow>
         record_name rc = record_name_of r \<and> record_name rc \<noteq> [])
   \<and> payload_name (fst (update_dns_record key ip dn [] t ttl outcome)) = dn @ ''.''
   \<and> payload_name (fst (update_dns_record key ip dn ''@'' t ttl outcome)) = dn @ ''.''
   \<and> display_name [] = ''@'' \<and> display_name ''@'' = ''@''"
proof -
  have 1: "record_name_of r = [] \<longrightarrow> validate_record r = None"
    using empty_name_dropped by blast
  have 2: "\<forall>rc. validate_record r = Some rc \<longrightarrow>
         record_name rc = record_name_of r \<and> record_name rc \<noteq> []"
    using retained_name by blast
  have 3: "payload_name (fst (update_dns_record key ip dn [] t ttl outcome)) = dn @ ''.''"
    "payload_name (fst (update_dns_record key ip dn ''@'' t ttl outcome)) = dn @ ''.''"
    "display_name [] = ''@''" "display_name ''@'' = ''@''"
    by (simp_all add: update_dns_record_def fqdn_record_name_def display_name_def)
  from 1 2 3 show ?thesis by blast
qed

theorem empty_name_dropped_apex_by_at_witness:
  "validate_record empty_name_record = None
   \<and> payload_name (fst (update_dns_record (Some ''secret'') ''203.0.113.9'' ''example.com''
                          ''@'' ''A'' 300 Http2xx)) = ''example.com.''"
  using empty_name_dropped_apex_by_at [of empty_name_record "Some ''secret''" "''203.0.113.9''"
      "''example.com''" "''A''" 300 Http2xx]
  by (simp add: empty_name_record_name)

text \<open>
  The claim as stated fails: an entry with an empty name, a valid type and a valid TTL is
  not retained, and a domain that has only this entry is dropped with it.
\<close>

theorem empty_name_record_not_retained:
  "validate_record empty_name_record = None
   \<and> map_sum id v_domains (validation_pipeline empty_name_document) = Inr []"
  by code_simp

text \<open>
  C8. What the code does when \<^verbatim>\<open>check_interval_seconds\<close> is an infinite float:
  \<^verbatim>\<open>int()\<close> raises \<^verbatim>\<open>OverflowError\<close>, which line 106 does not catch, and the exception
  leaves \<^verbatim>\<open>load_and_validate_config\<close>.
\<close>

theorem infinite_interval_uncaught:
  assumes "map_of d ''global_settings'' = Some (YDict gs)"
    and "map_of gs ''check_interval_seconds'' = Some (YFloat (FInf neg))"
  shows "validation_pipeline (YDict d) = Inl (Uncaught OverflowError)"
proof -
  from assms(1) have g: "dict_get d ''global_settings'' = YDict gs" and h: "has_key d ''global_settings''"
    by (simp_all add: dict_get_def dict_get_default_def has_key_def)
  then have e: "ensure_global_settings d = d" by (simp add: ensure_global_settings_def)
  from assms(2) have c: "dict_get gs ''check_interval_seconds'' = YFloat (FInf neg)"
    by (simp add: dict_get_def dict_get_default_def)
  have i: "effective_check_interval (YFloat (FInf neg)) = Inl (Uncaught OverflowError)"
    by (simp add: effective_check_interval_def)
  show ?thesis by (simp add: validation_pipeline_def e g c i)
qed

theorem infinite_interval_uncaught_witness:
  "validation_pipeline infinite_interval_document = Inl (Uncaught OverflowError)"
  unfolding infinite_interval_document_def
  by (rule infinite_interval_uncaught
        [where gs = "[(''check_interval_seconds'', YFloat (FInf False))]" and neg = False])
     simp_all

text \<open>
  C10. Validation does not touch the \<^verbatim>\<open>domains\<close> sequence of the document in memory.
  When the loaded document is a mapping whose \<^verbatim>\<open>domains\<close> is a sequence, then after
  \<^verbatim>\<open>load_and_validate_config\<close> the document in memory still has that sequence, every
  other top-level key but \<^verbatim>\<open>global_settings\<close> and every setting as loaded, while the
  returned list holds only the entries that validation keeps. A later
  \<^verbatim>\<open>cache_ip_in_yaml\<close> writes a document with the same sequence, dropped entries
  included, in which only the three settings \<^verbatim>\<open>last_known_ip\<close>,
  \<^verbatim>\<open>check_interval_seconds\<close> and \<^verbatim>\<open>public_ip_service_url\<close> are set anew.
\<close>

theorem save_writes_back_loaded_domains:
  assumes "config_read env = Parsed (YDict d)"
    and "map_of d ''domains'' = Some (YList ds)"
    and "load_and_validate_config env g = Inr ((last_ip, Some valid), g1)"
  shows "doc_get (parsed_config_data g1) ''domains'' = Some (YList ds)
      \<and> (\<forall>k. k \<noteq> ''global_settings'' \<longrightarrow> doc_get (parsed_config_data g1) k = map_of d k)
      \<and> (\<forall>k. settings_of (parsed_config_data g1) k = settings_of (YDict d) k)
      \<and> valid = List.map_filter validate_domain ds
      \<and> (\<exists>g2 written. cache_ip_in_yaml ip g1 = Inr (g2, written)
            \<and> doc_get written ''domains'' = Some (YList ds)
            \<and> (\<forall>k. k \<noteq> ''global_settings'' \<longrightarrow> doc_get written k = map_of d k)
            \<and> settings_of written ''last_known_ip'' = Some ip
            \<and> settings_of written ''check_interval_seconds''
                 = Some (YInt (CHECK_INTERVAL_SECONDS g1))
            \<and> settings_of written ''public_ip_service_url''
                 = Some (YStr (PUBLIC_IP_SERVICE_URL g1))
            \<and> (\<forall>k. k \<noteq> ''last_known_ip'' \<and> k \<noteq> ''check_interval_seconds''
                     \<and> k \<noteq> ''public_ip_service_url''
                  \<longrightarrow> settings_of written k = settings_of (YDict d) k))"
proof -
  from assms(2) have ne: "d \<noteq> []" by auto
  from load_parsed [OF assms(1) ne assms(3)] obtain v where
    v: "validation_pipeline (YDict d) = Inr v" and g1: "parsed_config_data g1 = v_document v"
    and vd: "valid = v_domains v"
    by blast
  have p: "parsed_config_data g1 = YDict (ensure_global_settings d)"
    by (simp add: g1 pipeline_document [OF v assms(2)])
  have dm: "map_of (ensure_global_settings d) ''domains'' = Some (YList ds)"
    using assms(2) by (simp add: map_of_ensure_global_settings)
  have a: "doc_get (parsed_config_data g1) ''domains'' = Some (YList ds)"
    by (simp add: p doc_get_def dm)
  have b: "\<forall>k. k \<noteq> ''global_settings'' \<longrightarrow> doc_get (parsed_config_data g1) k = map_of d k"
    by (simp add: p doc_get_def map_of_ensure_global_settings)
  have se: "settings_of (YDict (ensure_global_settings d)) k = settings_of (YDict d) k" for k
    by (simp add: settings_of_dict settings_after_ensure)
  have c: "\<forall>k. settings_of (parsed_config_data g1) k = settings_of (YDict d) k"
    by (simp add: p se)
  have "domains_of (YDict d) = ds"
    using assms(2) by (simp add: domains_of_def dict_get_def dict_get_default_def)
  with pipeline_domains [OF v] have f: "valid = List.map_filter validate_domain ds"
    by (simp add: vd)
  from cache_ip_in_yaml_written [OF p dm, of ip] obtain g2 where
    "\<exists>written. cache_ip_in_yaml ip g1 = Inr (g2, written)
      \<and> doc_get written ''domains'' = Some (YList ds)
      \<and> (\<forall>k. k \<noteq> ''global_settings'' \<longrightarrow>
             doc_get written k = map_of (ensure_global_settings d) k)
      \<and> settings_of written ''last_known_ip'' = Some ip
      \<and> settings_of written ''check_interval_seconds'' = Some (YInt (CHECK_INTERVAL_SECONDS g1))
      \<and> settings_of written ''public_ip_service_url'' = Some (YStr (PUBLIC_IP_SERVICE_URL g1))
      \<and> (\<forall>k. k \<noteq> ''last_known_ip'' \<and> k \<noteq> ''check_interval_seconds''
               \<and> k \<noteq> ''public_ip_service_url''
              \<longrightarrow> settings_of written k = settings_of (YDict (ensure_global_settings d)) k)" ..
  then obtain written where
    w0: "cache_ip_in_yaml ip g1 = Inr (g2, written)
      \<and> doc_get written ''domains'' = Some (YList ds)
      \<and> (\<forall>k. k \<noteq> ''global_settings'' \<longrightarrow>
             doc_get written k = map_of (ensure_global_settings d) k)
      \<and> settings_of written ''last_known_ip'' = Some ip
      \<and> settings_of written ''check_interval_seconds'' = Some (YInt (CHECK_INTERVAL_SECONDS g1))
      \<and> settings_of written ''public_ip_service_url'' = Some (YStr (PUBLIC_IP_SERVICE_URL g1))
      \<and> (\<forall>k. k \<noteq> ''last_known_ip'' \<and> k \<noteq> ''check_interval_seconds''
               \<and> k \<noteq> ''public_ip_service_url''
              \<longrightarrow> settings_of written k = settings_of (YDict (ensure_global_settings d)) k)" ..
  note w = w0 [THEN conjunct1] w0 [THEN conjunct2, THEN conjunct1]
    w0 [THEN conjunct2, THEN conjunct2, THEN conjunct1]
    w0 [THEN conjunct2, THEN conjunct2, THEN conjunct2, THEN conjunct1]
    w0 [THEN conjunct2, THEN conjunct2, THEN conjunct2, THEN conjunct2, THEN conjunct1]
    w0 [THEN conjunct2, THEN conjunct2, THEN conjunct2, THEN conjunct2, THEN conjunct2,
        THEN conjunct1]
    w0 [THEN conjunct2, THEN conjunct2, THEN conjunct2, THEN conjunct2, THEN conjunct2,
        THEN conjunct2]
  from w(3) have w3: "\<forall>k. k \<noteq> ''global_settings'' \<longrightarrow> doc_get written k = map_of d k"
    by (simp add: map_of_ensure_global_settings)
  from w(7) have w7: "\<forall>k. k \<noteq> ''last_known_ip'' \<and> k \<noteq> ''check_interval_seconds''
               \<and> k \<noteq> ''public_ip_service_url''
              \<longrightarrow> settings_of written k = settings_of (YDict d) k"
    by (simp add: se)
  have ex: "\<exists>g2 written. cache_ip_in_yaml ip g1 = Inr (g2, written)
            \<and> doc_get written ''domains'' = Some (YList ds)
            \<and> (\<forall>k. k \<noteq> ''global_settings'' \<longrightarrow> doc_get written k = map_of d k)
            \<and> settings_of written ''last_known_ip'' = Some ip
            \<and> settings_of written ''check_interval_seconds''
                 = Some (YInt (CHECK_INTERVAL_SECONDS g1))
            \<and> settings_of written ''public_ip_service_url''
                 = Some (YStr (PUBLIC_IP_SERVICE_URL g1))
            \<and> (\<forall>k. k \<noteq> ''last_known_ip'' \<and> k \<noteq> ''check_interval_seconds''
                     \<and> k \<noteq> ''public_ip_service_url''
                  \<longrightarrow> settings_of written k = settings_of (YDict d) k)"
    apply (rule exI [of _ g2])
    apply (rule exI [of _ written])
    apply (intro conjI)
          apply (fact w(1))
         apply (fact w(2))
        apply (fact w3)
       apply (fact w(4))
      apply (fact w(5))
     apply (fact w(6))
    apply (fact w7)
    done
  show ?thesis
    apply (intro conjI)
        apply (fact a)
       apply (fact b)
      apply (fact c)
     apply (fact f)
    apply (fact ex)
    done
qed

theorem save_writes_back_loaded_domains_witness:
  "doc_get (parsed_config_data (globals example_state)) ''domains''
     = Some (YList example_domain_entries)
   \<and> v_domains example_output = List.map_filter validate_domain example_domain_entries
   \<and> (\<exists>g2 written. cache_ip_in_yaml (YStr ''203.0.113.9'') (globals example_state)
                       = Inr (g2, written)
         \<and> doc_get written ''domains'' = Some (YList example_domain_entries)
         \<and> settings_of written ''last_known_ip'' = Some (YStr ''203.0.113.9''))"
proof -
  have r: "config_read example_env = Parsed (YDict example_mapping)"
    by (simp add: example_env_def example_document_def)
  have m: "map_of example_mapping ''domains'' = Some (YList example_domain_entries)"
    by (simp add: example_mapping_def)
  note t = save_writes_back_loaded_domains [OF r m example_load, of "YStr ''203.0.113.9''"]
  note a = t [THEN conjunct1]
  note f = t [THEN conjunct2, THEN conjunct2, THEN conjunct2, THEN conjunct1]
  note e = t [THEN conjunct2, THEN conjunct2, THEN conjunct2, THEN conjunct2]
  from e obtain g2 written where
    w: "cache_ip_in_yaml (YStr ''203.0.113.9'') (globals example_state) = Inr (g2, written)"
       "doc_get written ''domains'' = Some (YList example_domain_entries)"
       "settings_of written ''last_known_ip'' = Some (YStr ''203.0.113.9'')"
    by (elim exE conjE)
  have "\<exists>g2 written. cache_ip_in_yaml (YStr ''203.0.113.9'') (globals example_state)
                       = Inr (g2, written)
         \<and> doc_get written ''domains'' = Some (YList example_domain_entries)
         \<and> settings_of written ''last_known_ip'' = Some (YStr ''203.0.113.9'')"
    apply (rule exI [of _ g2])
    apply (rule exI [of _ written])
    apply (intro conjI)
      apply (fact w(1))
     apply (fact w(2))
    apply (fact w(3))
    done
  with a f show ?thesis by (intro conjI)
qed

end
